theory Spec2Isabelle
  imports Main
begin

unbundle bit_operations_syntax

section \<open>wshutils: endpoints, messages and the connection\<close>

text \<open>
  Go strings and byte slices are byte sequences; both are modelled as \<open>string\<close> (a list of
  8-bit characters), so \<open>length\<close> is Go's \<open>len\<close>, \<open>take n s\<close> is the slice \<open>s[:n]\<close> whenever
  \<open>n \<le> len(s)\<close>, and the conversions \<open>string(b)\<close> and \<open>[]byte(s)\<close> are the identity.
\<close>

record Endpoint =
  Name :: string
  URL :: string
  Description :: string

record Config =
  Endpoints :: "Endpoint list"

text \<open>
  The three wire messages. The first field of each is the \<open>Type\<close> tag, which the callers
  fill in by hand (\<open>"cmd"\<close>, \<open>"resize"\<close>, \<open>"heartbeat"\<close>); \<open>ResizeMsg\<close> then carries
  \<open>Rows\<close> and \<open>Cols\<close>, in the order of the struct.
\<close>

datatype Message =
    CmdMsg string string
  | ResizeMsg string int int
  | HeartbeatMsg string string

text \<open>
  Text is printed through \<open>fmt\<close> and \<open>log\<close>. A call is recorded with its format string
  and its arguments, uninterpreted: \<open>Quot a b\<close> stands for the floating-point argument
  \<open>float64(a)/b\<close>, and \<open>IOError\<close> for an error value that comes out of a library call
  (named by the call). \<open>Errorf\<close> is \<open>fmt.Errorf\<close>.
\<close>

datatype arg = Str string | Num int | Quot int int | Err error
and error = IOError string | Errorf string "arg list"

datatype printout =
    Printf string "arg list"
  | Println string
  | LogFatal "arg list"
  | LogFatalf string "arg list"

text \<open>
  What a run does to its surroundings up to the input loop, in order: text written, a
  dial, the call of \<open>term.MakeRaw\<close>, a frame written to the socket.
\<close>

datatype effect = Out printout | Dial string | MakeRaw | Wrote Message

text \<open>
  How a process ends: \<open>os.Exit\<close> (also through \<open>log.Fatal\<close>) with a code, a run-time
  panic, or the return of \<open>main\<close>.
\<close>

datatype status = Exit int | Panicked | Done

text \<open>
  What the process finds around it. Parsing YAML, \<open>url.Parse\<close>, the WebSocket handshake,
  \<open>os.Stat\<close>, reading a file, \<open>filepath.Join\<close> and the gzip compressor are library code:
  their results are inputs of the model. \<open>linkBudget\<close> is the number of frames the
  transport carries before a write fails (\<open>None\<close>: it never fails), \<open>responses\<close> are the
  payloads that arrive before the connection ends, \<open>clock\<close> is \<open>time.Now()\<close> in
  nanoseconds when the session starts.
\<close>

datatype ConfigFile = Unreadable | Malformed | Parsed Config
datatype DialResult = InvalidURL | DialFailure | Connected
datatype StatResult = NotExist | StatFailure | FileInfo int
datatype FileRead = OpenFails | ReadFails | Content string

record World =
  homeDir :: "string option"
  joinPath :: "string list \<Rightarrow> string"
  configFile :: "string \<Rightarrow> ConfigFile"
  network :: "string \<Rightarrow> DialResult"
  linkBudget :: "nat option"
  responses :: "string list"
  rawModeOK :: bool
  termSize :: "(int \<times> int) option"
  clock :: int
  stat :: "string \<Rightarrow> StatResult"
  readFile :: "string \<Rightarrow> FileRead"
  gzip :: "string \<Rightarrow> string"

definition GetDefaultConfigPath :: "World \<Rightarrow> string" where
  "GetDefaultConfigPath w =
     (case homeDir w of
        None \<Rightarrow> ''config.yaml''
      | Some home \<Rightarrow> joinPath w [home, ''.config'', ''wsh.yaml''])"

definition LoadConfig :: "World \<Rightarrow> string \<Rightarrow> error + Config" where
  "LoadConfig w configPath =
     (case configFile w configPath of
        Unreadable \<Rightarrow>
          Inl (Errorf ''failed to read config file '%s': %v''
                 [Str configPath, Err (IOError ''os.ReadFile'')])
      | Malformed \<Rightarrow>
          Inl (Errorf ''failed to parse config file '%s': %v''
                 [Str configPath, Err (IOError ''yaml.Unmarshal'')])
      | Parsed config \<Rightarrow> Inr config)"

text \<open>\<open>FindEndpoint\<close>: the first endpoint whose name is equal to the argument.\<close>

fun findIn :: "Endpoint list \<Rightarrow> string \<Rightarrow> Endpoint option" where
  "findIn [] name = None"
| "findIn (endpoint # rest) name =
     (if Name endpoint = name then Some endpoint else findIn rest name)"

definition FindEndpoint :: "Config \<Rightarrow> string \<Rightarrow> error + Endpoint" where
  "FindEndpoint config name =
     (case findIn (Endpoints config) name of
        Some endpoint \<Rightarrow> Inr endpoint
      | None \<Rightarrow> Inl (Errorf ''endpoint '%s' not found in config'' [Str name]))"

text \<open>
  \<open>IsURL\<close> (and its copy \<open>isURL\<close> in the older client): the conjunction is evaluated left
  to right, so both slices are in range when they are taken.
\<close>

definition IsURL :: "string \<Rightarrow> bool" where
  "IsURL s \<longleftrightarrow> length s > 6 \<and> (take 6 s = ''ws://'' \<or> take 7 s = ''wss://'')"

text \<open>
  The connection. \<open>frames\<close> are the frames written to the socket so far, oldest first. A
  frame is kept as the message value handed to \<open>SendJSON\<close>: \<open>json.Marshal\<close>, which turns it
  into text, is library code and cannot fail on these three structs. A write fails once
  the connection is closed or the transport has failed, and leaves nothing on the wire.
\<close>

record Connection =
  frames :: "Message list"
  isClosed :: bool
  budget :: "nat option"

definition NewConnection :: "World \<Rightarrow> string \<Rightarrow> effect list \<times> (error + Connection)" where
  "NewConnection w targetURL =
     (case network w targetURL of
        InvalidURL \<Rightarrow> ([], Inl (Errorf ''invalid URL: %v'' [Err (IOError ''url.Parse'')]))
      | DialFailure \<Rightarrow>
          ([Out (Printf ''Connecting to %s...\<newline>'' [Str targetURL]), Dial targetURL],
           Inl (Errorf ''dial error: %v'' [Err (IOError ''websocket.Dial'')]))
      | Connected \<Rightarrow>
          ([Out (Printf ''Connecting to %s...\<newline>'' [Str targetURL]), Dial targetURL],
           Inr \<lparr>frames = [], isClosed = False, budget = linkBudget w\<rparr>))"


definition Close :: "Connection \<Rightarrow> Connection" where
  "Close conn = conn\<lparr>isClosed := True\<rparr>"

text \<open>
  The connection is shared through a pointer. A function that uses it returns the error
  (\<open>None\<close> for \<open>nil\<close>) together with the connection as it is afterwards, so the frames
  written before a failure stay on the wire.
\<close>

definition WriteMessage :: "Connection \<Rightarrow> Message \<Rightarrow> error option \<times> Connection" where
  "WriteMessage conn data =
     (if isClosed conn then (Some (IOError ''websocket.WriteMessage''), conn)
      else case budget conn of
             None \<Rightarrow> (None, conn\<lparr>frames := frames conn @ [data]\<rparr>)
           | Some 0 \<Rightarrow> (Some (IOError ''websocket.WriteMessage''), conn)
           | Some (Suc k) \<Rightarrow> (None, conn\<lparr>frames := frames conn @ [data], budget := Some k\<rparr>))"

definition SendJSON :: "Connection \<Rightarrow> Message \<Rightarrow> error option \<times> Connection" where
  "SendJSON conn v = WriteMessage conn v"

text \<open>\<open>term.GetSize\<close> returns the columns first; on an error the size is 196 by 47.\<close>

definition ResizeTerm :: "Connection \<Rightarrow> (int \<times> int) option \<Rightarrow> error option \<times> Connection" where
  "ResizeTerm conn dims =
     (case dims of
        None \<Rightarrow> SendJSON conn (ResizeMsg ''resize'' 47 196)
      | Some (cols, rows) \<Rightarrow> SendJSON conn (ResizeMsg ''resize'' rows cols))"

section \<open>wcp: the file transfer\<close>

definition chunkSize :: nat where "chunkSize = 256"
definition endMarker :: string where "endMarker = ''__EOF''"
definition maxFileSize :: int where "maxFileSize = 32 * 1024"

subsection \<open>Library functions the transfer relies on\<close>

text \<open>
  \<open>filepath.Base\<close> on a Unix path, after its documentation: trailing slashes are
  removed, the last element is returned; the empty path gives \<open>.\<close> and a path of slashes
  only gives \<open>/\<close>.
\<close>

definition stripSlashes :: "string \<Rightarrow> string" where
  "stripSlashes path = rev (dropWhile (\<lambda>c. c = CHR ''/'') (rev path))"

definition lastElement :: "string \<Rightarrow> string" where
  "lastElement path = rev (takeWhile (\<lambda>c. c \<noteq> CHR ''/'') (rev path))"

definition Base :: "string \<Rightarrow> string" where
  "Base path =
     (if path = [] then ''.''
      else if lastElement (stripSlashes path) = [] then ''/''
      else lastElement (stripSlashes path))"

text \<open>
  \<open>base64.StdEncoding\<close> (RFC 4648, with padding). Three bytes are packed into 24 bits and
  cut into four groups of six bits, each written as a letter of the alphabet; a last
  group of one or two bytes is padded with \<open>=\<close>. The streaming encoder, written once and
  closed, produces the encoding of the whole input.
\<close>

definition encodeStd :: string where
  "encodeStd = ''ABCDEFGHIJKLMNOPQRSTUVWXYZabcdefghijklmnopqrstuvwxyz0123456789+/''"

definition enc6 :: "nat \<Rightarrow> char" where
  "enc6 v = encodeStd ! (v AND 63)"

fun b64encode :: "string \<Rightarrow> string" where
  "b64encode (a # b # c # rest) =
     (let val = push_bit 16 (of_char a) OR push_bit 8 (of_char b) OR of_char c
      in [enc6 (drop_bit 18 val), enc6 (drop_bit 12 val), enc6 (drop_bit 6 val), enc6 val]
         @ b64encode rest)"
| "b64encode [a, b] =
     (let val = push_bit 16 (of_char a) OR push_bit 8 (of_char b)
      in [enc6 (drop_bit 18 val), enc6 (drop_bit 12 val), enc6 (drop_bit 6 val), CHR ''=''])"
| "b64encode [a] =
     (let val = push_bit 16 (of_char a)
      in [enc6 (drop_bit 18 val), enc6 (drop_bit 12 val), CHR ''='', CHR ''=''])"
| "b64encode [] = []"

text \<open>
  The decoder is not part of the repository: the remote shell runs \<open>base64 --decode\<close>.
  It is written here after RFC 4648, as the inverse against which the encoder is checked.
  Every four letters give back three bytes; padding is accepted in the last group only,
  and a character outside the alphabet is an error.
\<close>

fun index_of :: "char \<Rightarrow> string \<Rightarrow> nat option" where
  "index_of c [] = None"
| "index_of c (x # xs) = (if c = x then Some 0 else map_option Suc (index_of c xs))"

definition dec6 :: "char \<Rightarrow> nat option" where
  "dec6 c = index_of c encodeStd"

definition byte :: "nat \<Rightarrow> char" where
  "byte v = char_of (take_bit 8 v)"

definition pack4 :: "nat \<Rightarrow> nat \<Rightarrow> nat \<Rightarrow> nat \<Rightarrow> nat" where
  "pack4 v0 v1 v2 v3 = push_bit 18 v0 OR push_bit 12 v1 OR push_bit 6 v2 OR v3"

fun b64decode :: "string \<Rightarrow> string option" where
  "b64decode [] = Some []"
| "b64decode (c0 # c1 # c2 # c3 # rest) =
     (case (dec6 c0, dec6 c1) of
        (Some v0, Some v1) \<Rightarrow>
          if c2 = CHR ''='' then
            (if c3 = CHR ''='' \<and> rest = []
             then Some [byte (drop_bit 16 (pack4 v0 v1 0 0))]
             else None)
          else
            (case dec6 c2 of
               None \<Rightarrow> None
             | Some v2 \<Rightarrow>
                 if c3 = CHR ''='' then
                   (if rest = []
                    then Some [byte (drop_bit 16 (pack4 v0 v1 v2 0)),
                               byte (drop_bit 8 (pack4 v0 v1 v2 0))]
                    else None)
                 else
                   (case dec6 c3 of
                      None \<Rightarrow> None
                    | Some v3 \<Rightarrow>
                        (case b64decode rest of
                           None \<Rightarrow> None
                         | Some bytes \<Rightarrow>
                             Some ([byte (drop_bit 16 (pack4 v0 v1 v2 v3)),
                                    byte (drop_bit 8 (pack4 v0 v1 v2 v3)),
                                    byte (pack4 v0 v1 v2 v3)] @ bytes))))
      | _ \<Rightarrow> None)"
| "b64decode _ = None"

subsection \<open>encodeFile and sendEncodedData\<close>

text \<open>
  \<open>encodeFile\<close>: open the file, gzip its bytes into a buffer, base64 the buffer. Writing
  into a memory buffer does not fail, so the errors left are those of opening and of
  reading the file. The progress lines that the transfer prints are left out of the
  model.
\<close>

definition encodeFile :: "World \<Rightarrow> string \<Rightarrow> error + string" where
  "encodeFile w localFile =
     (case readFile w localFile of
        OpenFails \<Rightarrow> Inl (Errorf ''failed to open source file: %v'' [Err (IOError ''os.Open'')])
      | ReadFails \<Rightarrow> Inl (Errorf ''failed to compress file: %v'' [Err (IOError ''io.Copy'')])
      | Content bytes \<Rightarrow> Inr (b64encode (gzip w bytes)))"

text \<open>
  \<open>sendEncodedData\<close>: the loop over \<open>i\<close>, with \<open>data[start:end]\<close> as \<open>take\<close> after \<open>drop\<close>.
  Go's \<open>int\<close> has 64 bits and \<open>len(data)\<close> is the length of a slice in memory, so the sums
  and products below stay far from \<open>2^63\<close> and are taken over \<open>nat\<close>.
\<close>

function sendChunks :: "Connection \<Rightarrow> string \<Rightarrow> nat \<Rightarrow> nat \<Rightarrow> error option \<times> Connection" where
  "sendChunks conn data totalChunks i =
     (if i < totalChunks then
        (let start = i * chunkSize;
             end0 = start + chunkSize;
             end1 = (if end0 > length data then length data else end0);
             chunk = take (end1 - start) (drop start data)
         in case SendJSON conn (CmdMsg ''cmd'' (chunk @ ''\<newline>'')) of
              (Some err, conn') \<Rightarrow>
                (Some (Errorf ''failed to send chunk %d/%d: %v''
                         [Num (int i + 1), Num (int totalChunks), Err err]), conn')
            | (None, conn') \<Rightarrow> sendChunks conn' data totalChunks (i + 1))
      else (None, conn))"
  by pat_completeness auto
termination
  by (relation "measure (\<lambda>(conn, data, totalChunks, i). totalChunks - i)") auto

definition sendEncodedData :: "Connection \<Rightarrow> string \<Rightarrow> error option \<times> Connection" where
  "sendEncodedData conn encodedData =
     sendChunks conn encodedData ((length encodedData + chunkSize - 1) div chunkSize) 0"

subsection \<open>transferFile\<close>

text \<open>
  A loop that sends each command of a list followed by a line break and stops at the
  first error (\<open>setupTTY\<close>, and the post commands of the second \<open>transferFile\<close>).
\<close>

fun sendCommands :: "string \<Rightarrow> Connection \<Rightarrow> string list \<Rightarrow> error option \<times> Connection" where
  "sendCommands fmt conn [] = (None, conn)"
| "sendCommands fmt conn (cmd # rest) =
     (case SendJSON conn (CmdMsg ''cmd'' (cmd @ ''\<newline>'')) of
        (Some err, conn') \<Rightarrow> (Some (Errorf fmt [Str cmd, Err err]), conn')
      | (None, conn') \<Rightarrow> sendCommands fmt conn' rest)"

definition handshakeMsg :: "string \<Rightarrow> string" where
  "handshakeMsg fileName = ''cat <<'__EOF' |base64 --decode |gunzip > '' @ fileName @ ''\<newline>''"

text \<open>
  The part that both copies of \<open>transferFile\<close> have in common, line for line: the
  handshake, the encoded file in chunks, the end marker.
\<close>

definition transferCore :: "World \<Rightarrow> Connection \<Rightarrow> string \<Rightarrow> error option \<times> Connection" where
  "transferCore w conn localFile =
     (let fileName = Base localFile in
      case SendJSON conn (CmdMsg ''cmd'' (handshakeMsg fileName)) of
        (Some err, conn1) \<Rightarrow> (Some (Errorf ''failed to send handshake: %v'' [Err err]), conn1)
      | (None, conn1) \<Rightarrow>
          (case encodeFile w localFile of
             Inl err \<Rightarrow> (Some (Errorf ''failed to encode file: %v'' [Err err]), conn1)
           | Inr encodedData \<Rightarrow>
               (case sendEncodedData conn1 encodedData of
                  (Some err, conn2) \<Rightarrow>
                    (Some (Errorf ''failed to send file data: %v'' [Err err]), conn2)
                | (None, conn2) \<Rightarrow>
                    (case SendJSON conn2 (CmdMsg ''cmd'' (endMarker @ ''\<newline>'')) of
                       (Some err, conn3) \<Rightarrow>
                         (Some (Errorf ''failed to send end marker: %v'' [Err err]), conn3)
                     | (None, conn3) \<Rightarrow> (None, conn3)))))"

text \<open>\<open>transferFile\<close> of \<open>wcp/main.go\<close> returns after the end marker.\<close>

definition transferFile :: "World \<Rightarrow> Connection \<Rightarrow> string \<Rightarrow> error option \<times> Connection" where
  "transferFile w conn localFile = transferCore w conn localFile"

text \<open>
  \<open>transferFile\<close> of the second copy of the program (the one with the size limit): after
  the end marker it sends two post commands. The goroutine it starts at the end, which
  closes the connection five seconds later, shows in \<open>responses\<close>: the wait for messages
  ends.
\<close>

definition postCommands :: "string list" where
  "postCommands = [''reset'', ''echo 'it works'' @ [CHR 0x27]]"

definition transferFile2 :: "World \<Rightarrow> Connection \<Rightarrow> string \<Rightarrow> error option \<times> Connection" where
  "transferFile2 w conn localFile =
     (case transferCore w conn localFile of
        (Some err, conn3) \<Rightarrow> (Some err, conn3)
      | (None, conn3) \<Rightarrow>
          sendCommands ''failed to send post command '%s': %v'' conn3 postCommands)"

definition setupTTY :: "Connection \<Rightarrow> error option \<times> Connection" where
  "setupTTY conn =
     sendCommands ''failed to send command '%s': %v'' conn
       [''stty -echo'', ''stty -icanon'', ''stty -isig'', ''stty -iexten'', ''stty -echoctl'',
        ''stty -echoke'', ''stty -echoprt'', ''stty -echoe'', ''stty -echonl'']"

subsection \<open>main, in the copy with the size limit\<close>

definition endpointLines :: "Config option \<Rightarrow> printout list" where
  "endpointLines config =
     (case config of
        None \<Rightarrow> []
      | Some c \<Rightarrow>
          if length (Endpoints c) > 0
          then [Println ''Available endpoints:''] @
               map (\<lambda>e. Printf ''  %-15s - %s\<newline>'' [Str (Name e), Str (Description e)])
                 (Endpoints c) @
               [Println []]
          else [])"

definition printUsage :: "string \<Rightarrow> Config option \<Rightarrow> printout list" where
  "printUsage configPath config =
     [Println ''Usage:'',
      Println ''  wcp [options] <endpoint-name> <local-file>                    - Copy file to remote endpoint'',
      Println ''  wcp [options] <websocket-url> <local-file>                    - Copy file to custom WebSocket URL'',
      Println ''  wcp [options] -c <config-file> <endpoint-name> <local-file>   - Use custom config file'',
      Println [],
      Println ''Options:'',
      Println ''  --force                    Force transfer files larger than 32KB'',
      Println [],
      Printf ''Config file: %s\<newline>'' [Str configPath],
      Println []] @ endpointLines config"

text \<open>
  After the checks on the file: the target is resolved, the connection is made, the
  remote terminal is set up, the file is sent, and the answers are printed until the
  connection ends.
\<close>

definition wcpResolve :: "World \<Rightarrow> string \<Rightarrow> string \<Rightarrow> printout list \<times> (int + string)" where
  "wcpResolve w configPath arg =
     (if \<not> IsURL arg then
        (case LoadConfig w configPath of
           Inl err \<Rightarrow> ([LogFatal [Str ''failed to load config:'', Err err]], Inl 1)
         | Inr config \<Rightarrow>
             (case FindEndpoint config arg of
                Inl err \<Rightarrow>
                  (Printf ''Error: %v\<newline>\<newline>'' [Err err] # printUsage configPath (Some config),
                   Inl 1)
              | Inr endpoint \<Rightarrow>
                  ([Printf ''Copying to endpoint '%s' (%s)...\<newline>''
                      [Str (Name endpoint), Str (Description endpoint)]],
                   Inr (URL endpoint))))
      else ([], Inr arg))"

definition wcpSession :: "World \<Rightarrow> Connection \<Rightarrow> string \<Rightarrow> effect list \<times> status" where
  "wcpSession w conn localFile =
     (case setupTTY conn of
        (Some err, conn1) \<Rightarrow>
          (map Wrote (frames conn1) @ [Out (LogFatal [Str ''Failed to setup TTY:'', Err err])],
           Exit 1)
      | (None, conn1) \<Rightarrow>
          (case transferFile2 w conn1 localFile of
             (Some err, conn2) \<Rightarrow>
               (map Wrote (frames conn2) @
                  [Out (LogFatal [Str ''File transfer failed:'', Err err])],
                Exit 1)
           | (None, conn2) \<Rightarrow>
               (map Wrote (frames conn2) @
                  [Out (Printf ''File '%s' successfully transferred\<newline>'' [Str localFile]),
                   Out (Println ''Waiting for response...'')] @
                  map (\<lambda>msg. Out (Printf ''Received: %s'' [Str msg])) (responses w) @
                  [Out (Printf ''Connection closed: %v\<newline>''
                          [Err (IOError ''websocket.ReadMessage'')])],
                Done)))"

definition wcpTransfer :: "World \<Rightarrow> string \<Rightarrow> string \<Rightarrow> string \<Rightarrow> effect list \<times> status" where
  "wcpTransfer w configPath arg localFile =
     (case wcpResolve w configPath arg of
        (printed, Inl code) \<Rightarrow> (map Out printed, Exit code)
      | (printed, Inr targetURL) \<Rightarrow>
          (case NewConnection w targetURL of
             (dialled, Inl err) \<Rightarrow>
               (map Out printed @ dialled @ [Out (LogFatal [Str ''Failed to connect:'', Err err])],
                Exit 1)
           | (dialled, Inr conn) \<Rightarrow>
               (map Out printed @ dialled @ fst (wcpSession w conn localFile),
                snd (wcpSession w conn localFile))))"

text \<open>
  The checks on the file. A failure of \<open>os.Stat\<close> other than a missing file leaves
  \<open>fileInfo\<close> nil, and \<open>fileInfo.Size()\<close> panics.
\<close>

definition wcpChecks :: "World \<Rightarrow> bool \<Rightarrow> string \<Rightarrow> string \<Rightarrow> string \<Rightarrow> effect list \<times> status" where
  "wcpChecks w force configPath arg localFile =
     (case stat w localFile of
        NotExist \<Rightarrow>
          ([Out (LogFatalf ''Local file '%s' does not exist'' [Str localFile])], Exit 1)
      | StatFailure \<Rightarrow> ([], Panicked)
      | FileInfo fileSize \<Rightarrow>
          if fileSize > maxFileSize \<and> \<not> force then
            ([Out (Printf ''Error: File '%s' is %d bytes (%.2f KB), which exceeds the 32KB limit.\<newline>''
                     [Str localFile, Num fileSize, Quot fileSize 1024]),
              Out (Println ''Use --force flag to transfer files larger than 32KB.''),
              Out (Println ''Note: wcp is designed for small file transfers.'')],
             Exit 1)
          else
            ((if fileSize > maxFileSize
              then [Out (Printf ''Warning: Transferring large file '%s' (%d bytes, %.2f KB) with --force flag.\<newline>''
                           [Str localFile, Num fileSize, Quot fileSize 1024])]
              else []) @ fst (wcpTransfer w configPath arg localFile),
             snd (wcpTransfer w configPath arg localFile)))"

text \<open>
  \<open>main\<close>: \<open>force\<close> is the parsed \<open>--force\<close> flag and \<open>remainingArgs\<close> are the arguments
  left after the flags. With three arguments the file is read from the third one, as
  the endpoint name is.
\<close>

definition wcpMain :: "World \<Rightarrow> bool \<Rightarrow> string list \<Rightarrow> effect list \<times> status" where
  "wcpMain w force remainingArgs =
     (case remainingArgs of
        [] \<Rightarrow>
          (map Out (printUsage (GetDefaultConfigPath w)
                      (case LoadConfig w (GetDefaultConfigPath w) of
                         Inl err \<Rightarrow> None | Inr config \<Rightarrow> Some config)),
           Exit 1)
      | [a0, a1] \<Rightarrow> wcpChecks w force (GetDefaultConfigPath w) a0 a1
      | [a0, a1, a2] \<Rightarrow>
          if a0 \<noteq> ''-c'' then
            ([Out (Println ''Error: Invalid arguments''),
              Out (Println ''Usage: wcp -c <config-file> <endpoint-name> <local-file>'')],
             Exit 1)
          else wcpChecks w force a1 a2 a2
      | _ \<Rightarrow>
          ([Out (Println ''Error: Invalid number of arguments''),
            Out (Println ''Usage:''),
            Out (Println ''  wcp <endpoint-name> <local-file>''),
            Out (Println ''  wcp <websocket-url> <local-file>''),
            Out (Println ''  wcp -c <config-file> <endpoint-name> <local-file>'')],
           Exit 1))"

section \<open>wsh: the interactive session\<close>

subsection \<open>From the command line to the input loop\<close>

definition printAvailableEndpoints :: "string \<Rightarrow> Config option \<Rightarrow> printout list" where
  "printAvailableEndpoints configPath config =
     [Printf ''Config file: %s\<newline>'' [Str configPath], Println []] @ endpointLines config"

text \<open>
  The endpoint-or-URL dispatch of \<open>runWSH\<close>: the text printed, and the exit code of
  \<open>os.Exit\<close> or the target URL. \<open>viaEndpoint\<close> is the branch taken when \<open>IsURL\<close> is false.
\<close>

definition viaEndpoint :: "World \<Rightarrow> string \<Rightarrow> string \<Rightarrow> printout list \<times> (int + string)" where
  "viaEndpoint w configPath arg =
     (case LoadConfig w configPath of
        Inl err \<Rightarrow> ([Printf ''Error: Failed to load config: %v\<newline>'' [Err err]], Inl 1)
      | Inr config \<Rightarrow>
          (case FindEndpoint config arg of
             Inl err \<Rightarrow>
               (Printf ''Error: Endpoint '%s' not found: %v\<newline>'' [Str arg, Err err] #
                  printAvailableEndpoints configPath (Some config),
                Inl 1)
           | Inr endpoint \<Rightarrow>
               ([Printf ''Connecting to endpoint '%s' (%s)...\<newline>''
                   [Str (Name endpoint), Str (Description endpoint)]],
                Inr (URL endpoint))))"

definition resolveTarget :: "World \<Rightarrow> string \<Rightarrow> string \<Rightarrow> printout list \<times> (int + string)" where
  "resolveTarget w configPath arg =
     (if \<not> IsURL arg then viaEndpoint w configPath arg else ([], Inr arg))"

text \<open>
  The session, once the input loop runs. \<open>tty\<close> is the mode of the local terminal:
  \<open>Original\<close> is the mode found at the start (the \<open>oldState\<close> that \<open>term.MakeRaw\<close> returns).
  \<open>lastSendTime\<close> is in nanoseconds. \<open>lastCols\<close> and \<open>lastRows\<close> belong to the resize
  watcher. \<open>screen\<close> is what was written to standard output. \<open>phase\<close> is \<open>Active\<close> while the
  main goroutine is in the input loop, \<open>Closing\<close> once it has left the loop and the
  deferred calls are pending, \<open>Closed\<close> when the process has ended with \<open>exitCode\<close>. Logging
  is left out of the model.
\<close>

datatype TermMode = Original | RawMode
datatype Phase = Active | Closing | Closed

record Session =
  conn :: Connection
  tty :: TermMode
  lastSendTime :: int
  lastCols :: int
  lastRows :: int
  heartbeatInterval :: int
  screen :: "string list"
  phase :: Phase
  exitCode :: "int option"

text \<open>
  Before the loop: the first resize and the \<open>TERM\<close> command, each followed by
  \<open>updateLastSendTime\<close>; the errors of both sends are dropped.
\<close>

definition enterSession :: "World \<Rightarrow> int \<Rightarrow> Connection \<Rightarrow> Session" where
  "enterSession w interval c =
     (let c1 = snd (ResizeTerm c (termSize w));
          c2 = snd (SendJSON c1 (CmdMsg ''cmd'' ''export TERM=xterm-256color\<newline>''))
      in \<lparr>conn = c2, tty = RawMode, lastSendTime = clock w, lastCols = 0, lastRows = 0,
          heartbeatInterval = interval, screen = [], phase = Active, exitCode = None\<rparr>)"

text \<open>
  \<open>runWSH\<close> up to the input loop. \<open>configFlag\<close> and \<open>interval\<close> are the two flags, \<open>args\<close> the
  positional arguments (at most one). The result is what was done, in order, and either
  how the process ended or the session that starts.
\<close>

definition runWSH :: "World \<Rightarrow> string \<Rightarrow> int \<Rightarrow> string list \<Rightarrow> effect list \<times> (status + Session)" where
  "runWSH w configFlag interval args =
     (let configPath = (if configFlag \<noteq> [] then configFlag else GetDefaultConfigPath w) in
      case args of
        [] \<Rightarrow>
          (case LoadConfig w configPath of
             Inl err \<Rightarrow>
               (map Out (Printf ''Error: Failed to load config: %v\<newline>'' [Err err] #
                           printAvailableEndpoints configPath None),
                Inl Done)
           | Inr config \<Rightarrow>
               (map Out (printAvailableEndpoints configPath (Some config)), Inl Done))
      | arg # _ \<Rightarrow>
          (case resolveTarget w configPath arg of
             (printed, Inl code) \<Rightarrow> (map Out printed, Inl (Exit code))
           | (printed, Inr targetURL) \<Rightarrow>
               (case NewConnection w targetURL of
                  (dialled, Inl err) \<Rightarrow>
                    (map Out printed @ dialled @
                       [Out (Printf ''Error: Failed to connect: %v\<newline>'' [Err err])],
                     Inl (Exit 1))
                | (dialled, Inr c) \<Rightarrow>
                    if \<not> rawModeOK w then
                      (map Out printed @ dialled @
                         [MakeRaw,
                          Out (Printf ''Error: Failed to set terminal raw mode: %v\<newline>''
                                 [Err (IOError ''term.MakeRaw'')])],
                       Inl (Exit 1))
                    else
                      (map Out printed @ dialled @ [MakeRaw] @
                         map Wrote (frames (conn (enterSession w interval c))),
                       Inr (enterSession w interval c)))))"

subsection \<open>The goroutines, one step at a time\<close>

text \<open>
  What can happen to a running session. Each event is one pass of one goroutine, taken
  as a whole; the events of different goroutines come in any order.
  \<^item> \<open>StdinRead bytes now\<close>: \<open>os.Stdin.Read\<close> returned \<open>bytes\<close> (at most 1024 of them) and
    no error; \<open>now\<close> is the clock when \<open>updateLastSendTime\<close> runs.
  \<^item> \<open>StdinError\<close>: \<open>os.Stdin.Read\<close> returned an error.
  \<^item> \<open>Return\<close>: \<open>runWSH\<close> returns, the deferred calls run and \<open>main\<close> ends.
  \<^item> \<open>Received msg\<close> and \<open>ReceiveError\<close>: what \<open>ReadMessage\<close> returned to the output pump.
  \<^item> \<open>Signalled sig dims now\<close>: a signal arrived; \<open>dims\<close> is what \<open>term.GetSize\<close> says.
  \<^item> \<open>ResizeTick dims now\<close>: a tick of the resize watcher.
  \<^item> \<open>HeartbeatTick now refresh\<close>: a tick of the heartbeat; \<open>now\<close> is the clock read by
    \<open>time.Since\<close>, \<open>refresh\<close> the clock when \<open>updateLastSendTime\<close> runs.
  \<^item> \<open>LinkDown\<close>: the transport fails; from now on every write returns an error.
\<close>

datatype Signal = SIGINT | SIGWINCH

datatype Event =
    StdinRead string int
  | StdinError
  | Return
  | Received string
  | ReceiveError
  | Signalled Signal "(int \<times> int) option" int
  | ResizeTick "(int \<times> int) option" int
  | HeartbeatTick int int
  | LinkDown

definition quitSequence :: string where
  "quitSequence = map char_of [27, 91, 50, 52, 126 :: nat]"

definition resetTerminal :: "string list" where
  "resetTerminal =
     [CHR 0x1B # ''[2J'', CHR 0x1B # ''[H'', CHR 0x1B # ''[0m'', CHR 0x1B # ''[0 q'',
      CHR 0x1B # ''[?25h'', CHR 0x1B # ''[?1l'', CHR 0x1B # ''[?7h'', CHR 0x1B # ''[?25h'']"

text \<open>
  \<open>time.Duration(heartbeatInterval) * time.Second\<close> is a product of 64-bit integers: it
  wraps around.
\<close>

definition int64 :: "int \<Rightarrow> int" where
  "int64 x = (x + 2 ^ 63) mod 2 ^ 64 - 2 ^ 63"

definition heartbeatDuration :: "int \<Rightarrow> int" where
  "heartbeatDuration interval = int64 (interval * 1000000000)"

fun react :: "Session \<Rightarrow> Event \<Rightarrow> Session" where
  "react s (StdinRead bytes now) =
     (if phase s \<noteq> Active then s
      else if bytes = quitSequence then s\<lparr>conn := Close (conn s), phase := Closing\<rparr>
      else s\<lparr>conn := snd (SendJSON (conn s) (CmdMsg ''cmd'' bytes)), lastSendTime := now\<rparr>)"
| "react s StdinError =
     (if phase s \<noteq> Active then s else s\<lparr>phase := Closing\<rparr>)"
| "react s Return =
     (if phase s \<noteq> Closing then s
      else s\<lparr>tty := Original, screen := screen s @ resetTerminal, conn := Close (conn s),
             phase := Closed, exitCode := Some 0\<rparr>)"
| "react s (Received msg) = s\<lparr>screen := screen s @ [msg]\<rparr>"
| "react s ReceiveError = s\<lparr>phase := Closed, exitCode := Some 0\<rparr>"
| "react s (Signalled SIGINT dims now) =
     s\<lparr>conn := snd (SendJSON (conn s) (CmdMsg ''cmd'' [char_of (3 :: nat)])),
        lastSendTime := now\<rparr>"
| "react s (Signalled SIGWINCH dims now) =
     s\<lparr>conn := snd (ResizeTerm (conn s) dims), lastSendTime := now\<rparr>"
| "react s (ResizeTick None now) = s"
| "react s (ResizeTick (Some (cols, rows)) now) =
     (if cols \<noteq> lastCols s \<or> rows \<noteq> lastRows s
      then s\<lparr>conn := snd (SendJSON (conn s) (ResizeMsg ''resize'' rows cols)),
             lastSendTime := now, lastCols := cols, lastRows := rows\<rparr>
      else s)"
| "react s (HeartbeatTick now refresh) =
     (if now - lastSendTime s > heartbeatDuration (heartbeatInterval s)
      then s\<lparr>conn := snd (SendJSON (conn s) (HeartbeatMsg ''heartbeat'' [])),
             lastSendTime := refresh\<rparr>
      else s)"
| "react s LinkDown = s\<lparr>conn := (conn s)\<lparr>budget := Some 0\<rparr>\<rparr>"

text \<open>Nothing happens in a process that has ended.\<close>

definition step :: "Session \<Rightarrow> Event \<Rightarrow> Session" where
  "step s e = (if phase s = Closed then s else react s e)"

fun run :: "Session \<Rightarrow> Event list \<Rightarrow> Session" where
  "run s [] = s"
| "run s (e # es) = run (step s e) es"

text \<open>
  The time of the last successful send, which the spec takes the liveness clock to hold,
  followed along a run: a step that puts a frame on the wire sets it to the time at which
  that step refreshes the clock.
\<close>

fun refreshTime :: "Event \<Rightarrow> int" where
  "refreshTime (StdinRead bytes now) = now"
| "refreshTime (Signalled sig dims now) = now"
| "refreshTime (ResizeTick dims now) = now"
| "refreshTime (HeartbeatTick now refresh) = refresh"
| "refreshTime _ = 0"

fun lastSuccessfulSend :: "int \<Rightarrow> Session \<Rightarrow> Event list \<Rightarrow> int" where
  "lastSuccessfulSend t s [] = t"
| "lastSuccessfulSend t s (e # es) =
     lastSuccessfulSend
       (if frames (conn (step s e)) \<noteq> frames (conn s) then refreshTime e else t)
       (step s e) es"

subsection \<open>The older client\<close>

text \<open>
  The older copy of the client has the same input loop with another reserved sequence
  (F5) and a \<open>sendJSON\<close> that returns nothing. One pass of its loop gives the connection
  afterwards and whether the loop goes on.
\<close>

definition quitSequenceF5 :: string where
  "quitSequenceF5 = map char_of [27, 91, 49, 53, 126 :: nat]"

definition sendJSON :: "Connection \<Rightarrow> Message \<Rightarrow> Connection" where
  "sendJSON c v = snd (WriteMessage c v)"

definition inputPass :: "Connection \<Rightarrow> string \<Rightarrow> Connection \<times> bool" where
  "inputPass c bytes =
     (if bytes = quitSequenceF5 then (Close c, False)
      else (sendJSON c (CmdMsg ''cmd'' bytes), True))"

section \<open>Notions used to state the properties\<close>

text \<open>
  A connection is \<open>healthy\<close> when it is open and its transport does not fail.
  \<open>pushed c ms\<close> is the connection \<open>c\<close> after the frames \<open>ms\<close> have been written to it.
  \<open>cmdLine p\<close> is the \<open>Cmd\<close> message that carries the payload \<open>p\<close> and a line break.
\<close>

definition healthy :: "Connection \<Rightarrow> bool" where
  "healthy c \<longleftrightarrow> \<not> isClosed c \<and> budget c = None"

definition pushed :: "Connection \<Rightarrow> Message list \<Rightarrow> Connection" where
  "pushed c ms = c\<lparr>frames := frames c @ ms\<rparr>"

definition cmdLine :: "string \<Rightarrow> Message" where
  "cmdLine p = CmdMsg ''cmd'' (p @ ''\<newline>'')"

text \<open>
  The segments of a blob: the \<open>k\<close>-th one starts at byte \<open>256 * k\<close> and has at most 256
  bytes; \<open>chunksOf\<close> lists them up to the end of the blob.
\<close>

definition segment :: "string \<Rightarrow> nat \<Rightarrow> string" where
  "segment data k = take chunkSize (drop (k * chunkSize) data)"

definition chunksOf :: "string \<Rightarrow> string list" where
  "chunksOf data = map (segment data) [0..<(length data + chunkSize - 1) div chunkSize]"

text \<open>
  The inverse pipeline, which the handshake command runs on the remote side: the base64
  decoder and then a decompressor \<open>gunzip\<close>, which is given.
\<close>

definition decodePipeline :: "(string \<Rightarrow> string option) \<Rightarrow> string \<Rightarrow> string option" where
  "decodePipeline gunzip blob =
     (case b64decode blob of None \<Rightarrow> None | Some compressed \<Rightarrow> gunzip compressed)"

text \<open>
  A small world for concrete runs: one endpoint \<open>prod\<close> in the configuration, a network
  that accepts the dial, a terminal of 80 by 24, and one file of five bytes, \<open>hello\<close>.
  \<open>helloGz\<close> is a gzip stream of these five bytes, and \<open>exampleGunzip\<close> decompresses it.
\<close>

definition helloGz :: string where
  "helloGz = map char_of
     [31, 139, 8, 0, 0, 0, 0, 0, 0, 255, 202, 72, 205, 201, 201, 7, 4, 0, 0, 255, 255,
      134, 166, 16, 54, 5, 0, 0, 0 :: nat]"

definition exampleGunzip :: "string \<Rightarrow> string option" where
  "exampleGunzip z = (if z = helloGz then Some ''hello'' else None)"

definition exampleWorld :: World where
  "exampleWorld =
     \<lparr>homeDir = Some ''/home/user'',
      joinPath = (\<lambda>parts. ''/home/user/.config/wsh.yaml''),
      configFile = (\<lambda>path. Parsed \<lparr>Endpoints =
        [\<lparr>Name = ''prod'', URL = ''ws://prod.example:8080/ws'', Description = ''production''\<rparr>]\<rparr>),
      network = (\<lambda>url. Connected),
      linkBudget = None,
      responses = [''ok''],
      rawModeOK = True,
      termSize = Some (80, 24),
      clock = 0,
      stat = (\<lambda>path. FileInfo 5),
      readFile = (\<lambda>path. Content ''hello''),
      gzip = (\<lambda>bytes. helloGz)\<rparr>"

definition freshConnection :: Connection where
  "freshConnection = \<lparr>frames = [], isClosed = False, budget = None\<rparr>"

text \<open>
  The example world with a source file of 32 KiB and one byte: \<open>bigFile\<close> is 32769 times
  the letter \<open>x\<close>, \<open>os.Stat\<close> reports its size, and \<open>bigGz\<close> is a gzip stream of it.
\<close>

definition bigFile :: string where
  "bigFile = replicate 32769 CHR ''x''"

definition bigGz :: string where
  "bigGz = map char_of
     [31, 139, 8, 0, 0, 0, 0, 0, 0, 255, 237, 193, 1, 1, 0, 0, 0, 128, 144, 219, 205, 239,
      8, 10, 0, 0, 0, 0, 0, 0, 0, 0, 0, 0, 0, 0, 0, 0, 0, 0, 0, 0, 0, 0, 0, 0, 0, 0, 0, 0,
      0, 0, 0, 0, 0, 104, 190, 218, 5, 96, 1, 128, 0, 0 :: nat]"

definition bigFileWorld :: World where
  "bigFileWorld = exampleWorld
     \<lparr>stat := (\<lambda>path. FileInfo 32769),
      readFile := (\<lambda>path. Content bigFile),
      gzip := (\<lambda>bytes. bigGz)\<rparr>"

text \<open>The example world with a network on which every dial fails.\<close>

definition unreachableWorld :: World where
  "unreachableWorld = exampleWorld\<lparr>network := (\<lambda>url. DialFailure)\<rparr>"

text \<open>
  The session that \<open>runWSH\<close> starts in the example world, with a heartbeat interval of
  15 seconds: the first resize and the \<open>TERM\<close> command are on the wire, the clock is 0.
\<close>

definition exampleSession :: Session where
  "exampleSession = enterSession exampleWorld 15 freshConnection"

text \<open>
  When a heartbeat is due in the words of the spec: at a tick at which the time since the
  last successful send exceeds the configured interval (in seconds). \<open>t0\<close> is the time of
  the last successful send before the run \<open>es\<close> from the session \<open>s\<close>.
\<close>

definition specHeartbeatDue :: "int \<Rightarrow> Session \<Rightarrow> Event list \<Rightarrow> int \<Rightarrow> bool" where
  "specHeartbeatDue t0 s es now \<longleftrightarrow>
     now - lastSuccessfulSend t0 s es > heartbeatInterval s * 1000000000"

section \<open>Properties\<close>

subsection \<open>The URL test\<close>

lemma take_length_neq:
  assumes "n \<le> length s" and "length lit \<noteq> n"
  shows "take n s \<noteq> lit"
proof
  assume "take n s = lit"
  then have "length (take n s) = length lit" by simp
  with assms show False by simp
qed

lemma IsURL_never: "\<not> IsURL s"
proof
  assume a: "IsURL s"
  then have len: "6 < length s" by (simp add: IsURL_def)
  have "take 6 s \<noteq> ''ws://''" by (rule take_length_neq) (use len in simp_all)
  moreover have "take 7 s \<noteq> ''wss://''" by (rule take_length_neq) (use len in simp_all)
  ultimately show False using a by (simp add: IsURL_def)
qed

text \<open>
  C10. \<open>IsURL\<close> is false on every string: the guard compares a prefix of six bytes with
  the five-byte literal \<open>ws://\<close> and a prefix of seven bytes with the six-byte literal
  \<open>wss://\<close>. So the dispatch of \<open>runWSH\<close> never takes the argument as the URL itself; it is
  always looked up as an endpoint name in the configuration.
\<close>

theorem IsURL_always_false:
  "IsURL s = False \<and> resolveTarget w configPath s = viaEndpoint w configPath s"
  using IsURL_never[of s] by (simp add: resolveTarget_def)

subsection \<open>Sending on a healthy connection\<close>

lemma SendJSON_healthy:
  "healthy c \<Longrightarrow> SendJSON c m = (None, pushed c [m])"
  by (simp add: healthy_def SendJSON_def WriteMessage_def pushed_def)

lemma healthy_pushed [simp]: "healthy c \<Longrightarrow> healthy (pushed c ms)"
  by (simp add: healthy_def pushed_def)

lemma pushed_pushed [simp]: "pushed (pushed c xs) ys = pushed c (xs @ ys)"
  by (simp add: pushed_def)

lemma pushed_Nil [simp]: "pushed c [] = c"
  by (simp add: pushed_def)

lemma slice_segment:
  "take ((if k * chunkSize + chunkSize > length data then length data else k * chunkSize + chunkSize)
          - k * chunkSize) (drop (k * chunkSize) data) = segment data k"
  by (simp add: segment_def)

lemma sendChunks_healthy:
  "healthy c \<Longrightarrow> i \<le> n \<Longrightarrow>
   sendChunks c data n i =
     (None, pushed c (map (\<lambda>k. CmdMsg ''cmd'' (segment data k @ ''\<newline>'')) [i..<n]))"
proof (induction "n - i" arbitrary: c i)
  case 0
  then show ?case by (subst sendChunks.simps) simp
next
  case (Suc d)
  let ?m = "CmdMsg ''cmd'' (segment data i @ ''\<newline>'')"
  from Suc.hyps(2) have lt: "i < n" and d: "d = n - (i + 1)" by simp_all
  have send: "SendJSON c ?m = (None, pushed c [?m])"
    using Suc.prems(1) by (rule SendJSON_healthy)
  have rec: "sendChunks (pushed c [?m]) data n (i + 1) =
      (None, pushed (pushed c [?m])
               (map (\<lambda>k. CmdMsg ''cmd'' (segment data k @ ''\<newline>'')) [i + 1..<n]))"
    using Suc.hyps(1)[OF d] Suc.prems(1) lt by simp
  have "sendChunks c data n i = sendChunks (pushed c [?m]) data n (i + 1)"
    using lt by (subst sendChunks.simps) (simp add: Let_def slice_segment send)
  with rec show ?case using lt by (simp add: upt_conv_Cons)
qed

lemma concat_segments:
  "concat (map (segment data) [0..<n]) = take (n * chunkSize) data"
proof (induction n)
  case 0
  show ?case by simp
next
  case (Suc n)
  have "Suc n * chunkSize = n * chunkSize + chunkSize" by simp
  then have "take (Suc n * chunkSize) data = take (n * chunkSize) data @ segment data n"
    by (simp only: take_add segment_def)
  with Suc show ?case by simp
qed

lemma ceil_bounds:
  fixes L k :: nat
  assumes "0 < L" and "0 < k"
  defines "n \<equiv> (L + k - 1) div k"
  shows "0 < n" and "(n - 1) * k < L" and "L \<le> n * k"
proof -
  define r where "r = (L + k - 1) mod k"
  have split: "n * k + r = L + k - 1" by (simp add: n_def r_def)
  have r: "r < k" using assms(2) by (simp add: r_def)
  show le: "L \<le> n * k" using split r assms by linarith
  show pos: "0 < n" using le assms(1) by (cases n) simp_all
  have "(n - 1) * k = n * k - k" by (simp add: diff_mult_distrib)
  then show "(n - 1) * k < L" using split r assms by linarith
qed

lemma length_segment_full:
  assumes "(k + 1) * chunkSize \<le> length data"
  shows "length (segment data k) = chunkSize"
  using assms by (simp add: segment_def)

lemma length_segment_last:
  fixes data :: string
  assumes "0 < length data"
  shows "length (segment data ((length data + chunkSize - 1) div chunkSize - 1)) =
           (if length data mod chunkSize = 0 then chunkSize else length data mod chunkSize)"
proof -
  define L where "L = length data"
  define n where "n = (L + chunkSize - 1) div chunkSize"
  define m where "m = n - 1"
  define q where "q = m * chunkSize"
  have k: "0 < chunkSize" by (simp add: chunkSize_def)
  have L: "0 < L" using assms by (simp add: L_def)
  note b = ceil_bounds[OF L k, folded n_def]
  have n: "n = m + 1" using b(1) by (simp add: m_def)
  have lo: "q < L" using b(2) by (simp add: m_def q_def)
  have hi: "L \<le> q + chunkSize" using b(3) by (simp add: n q_def)
  have len: "length (segment data m) = L - q"
    using lo hi by (simp add: segment_def L_def[symmetric] q_def[symmetric])
  have md: "L mod chunkSize = (if L - q = chunkSize then 0 else L - q)"
  proof -
    have "L = q + (L - q)" using lo by simp
    then have "L mod chunkSize = (m * chunkSize + (L - q)) mod chunkSize"
      by (simp add: q_def)
    also have "\<dots> = (L - q) mod chunkSize" by simp
    finally show ?thesis using lo hi by auto
  qed
  have pos: "0 < L - q" using lo by simp
  show ?thesis
    using len md pos unfolding L_def[symmetric] n_def[symmetric] m_def[symmetric]
    by (auto split: if_splits)
qed

lemma sendEncodedData_healthy:
  assumes "healthy c"
  shows "sendEncodedData c blob = (None, pushed c (map cmdLine (chunksOf blob)))"
  using sendChunks_healthy[OF assms, of 0 "(length blob + chunkSize - 1) div chunkSize" blob]
  by (simp add: sendEncodedData_def chunksOf_def cmdLine_def comp_def)

lemma length_chunksOf: "length (chunksOf blob) = (length blob + 255) div 256"
  by (simp add: chunksOf_def chunkSize_def)

lemma concat_chunksOf: "concat (chunksOf blob) = blob"
proof (cases "length blob = 0")
  case True
  then show ?thesis by (simp add: chunksOf_def concat_segments)
next
  case False
  then have "length blob \<le> (length blob + chunkSize - 1) div chunkSize * chunkSize"
    by (intro ceil_bounds(3)) (simp_all add: chunkSize_def)
  then show ?thesis by (simp add: chunksOf_def concat_segments)
qed

lemma chunksOf_full:
  assumes "k + 1 < length (chunksOf blob)"
  shows "length (chunksOf blob ! k) = 256"
proof -
  define n where "n = (length blob + chunkSize - 1) div chunkSize"
  have kn: "k + 1 < n" using assms by (simp add: chunksOf_def n_def)
  then have pos: "0 < length blob" by (cases "length blob = 0") (simp_all add: n_def chunkSize_def)
  have "(n - 1) * chunkSize < length blob"
    unfolding n_def by (rule ceil_bounds(2)[OF pos]) (simp add: chunkSize_def)
  moreover have "(k + 1) * chunkSize \<le> (n - 1) * chunkSize"
    by (rule mult_le_mono1) (use kn in simp)
  ultimately have "(k + 1) * chunkSize \<le> length blob" by linarith
  then have "length (segment blob k) = chunkSize" by (rule length_segment_full)
  moreover have "chunksOf blob = map (segment blob) [0..<n]" by (simp add: chunksOf_def n_def)
  ultimately show ?thesis using kn by (simp add: chunkSize_def)
qed

lemma chunksOf_last:
  assumes "0 < length blob"
  shows "length (last (chunksOf blob)) =
           (if length blob mod 256 = 0 then 256 else length blob mod 256)"
proof -
  define n where "n = (length blob + chunkSize - 1) div chunkSize"
  have pos: "0 < n" unfolding n_def by (rule ceil_bounds(1)[OF assms]) (simp add: chunkSize_def)
  have "chunksOf blob = map (segment blob) [0..<n]" by (simp add: chunksOf_def n_def)
  with pos have "last (chunksOf blob) = segment blob (n - 1)"
    by (simp add: last_map last_upt)
  then show ?thesis
    using length_segment_last[OF assms] by (simp add: n_def chunkSize_def)
qed

text \<open>
  C3. On a connection that stays up, \<open>sendEncodedData\<close> applied to a blob of \<open>L > 0\<close> bytes
  writes exactly the \<open>Cmd\<close> messages of the segments of the blob, in order, each with a
  line break appended, and nothing else. There are \<open>(L + 255) div 256\<close> segments, the
  ceiling of \<open>L / 256\<close>; every segment but the last has 256 bytes; the last has
  \<open>L mod 256\<close> bytes, or 256 when that is zero; and the segments concatenated in the order
  sent are the blob.
\<close>

theorem sendEncodedData_chunks:
  assumes "healthy c" and "0 < length blob"
  shows "sendEncodedData c blob = (None, pushed c (map cmdLine (chunksOf blob)))
       \<and> length (chunksOf blob) = (length blob + 255) div 256
       \<and> (length (chunksOf blob) - 1) * 256 < length blob
       \<and> length blob \<le> length (chunksOf blob) * 256
       \<and> (\<forall>k. k + 1 < length (chunksOf blob) \<longrightarrow> length (chunksOf blob ! k) = 256)
       \<and> length (last (chunksOf blob)) =
           (if length blob mod 256 = 0 then 256 else length blob mod 256)
       \<and> concat (chunksOf blob) = blob"
proof -
  have k: "0 < chunkSize" by (simp add: chunkSize_def)
  note b = ceil_bounds[OF assms(2) k]
  have "(length (chunksOf blob) - 1) * 256 < length blob"
    using b(2) by (simp add: chunksOf_def chunkSize_def)
  moreover have "length blob \<le> length (chunksOf blob) * 256"
    using b(3) by (simp add: chunksOf_def chunkSize_def)
  ultimately show ?thesis
    using sendEncodedData_healthy[OF assms(1)] length_chunksOf chunksOf_full
      chunksOf_last[OF assms(2)] concat_chunksOf
    by simp
qed

theorem sendEncodedData_chunks_witness:
  "sendEncodedData \<lparr>frames = [], isClosed = False, budget = None\<rparr> (replicate 300 CHR ''x'') =
     (None, \<lparr>frames = [cmdLine (replicate 256 CHR ''x''), cmdLine (replicate 44 CHR ''x'')],
             isClosed = False, budget = None\<rparr>)
   \<and> map length (chunksOf (replicate 300 CHR ''x'')) = [256, 44]
   \<and> concat (chunksOf (replicate 300 CHR ''x'')) = replicate 300 CHR ''x''"
proof -
  have h: "healthy \<lparr>frames = [], isClosed = False, budget = None\<rparr>"
    by (simp add: healthy_def)
  have l: "0 < length (replicate 300 CHR ''x'')" by simp
  have two: "[0..<2] = [0, 1]" by (simp add: upt_rec)
  have cs: "chunksOf (replicate 300 CHR ''x'') = [replicate 256 CHR ''x'', replicate 44 CHR ''x'']"
    by (simp add: chunksOf_def segment_def chunkSize_def two)
  show ?thesis
    using sendEncodedData_chunks[OF h l] by (simp add: cs pushed_def)
qed

subsection \<open>The base64 text encoding and its inverse\<close>

lemma index_of_nth: "distinct xs \<Longrightarrow> i < length xs \<Longrightarrow> index_of (xs ! i) xs = Some i"
proof (induction xs arbitrary: i)
  case Nil then show ?case by simp
next
  case (Cons x xs)
  show ?case
  proof (cases i)
    case 0 then show ?thesis by simp
  next
    case (Suc j)
    with Cons.prems have "xs ! j \<in> set xs" "x \<notin> set xs" by auto
    then have "xs ! j \<noteq> x" by auto
    with Cons Suc show ?thesis by simp
  qed
qed

lemma distinct_encodeStd: "distinct encodeStd" unfolding encodeStd_def by simp
lemma length_encodeStd: "length encodeStd = 64" unfolding encodeStd_def by simp
lemma pad_not_in: "CHR ''='' \<notin> set encodeStd" unfolding encodeStd_def by simp

lemma and63: "(x::nat) AND 63 = x mod 64"
proof -
  have "x AND 63 = take_bit 6 x" by (simp add: take_bit_eq_mask mask_eq_exp_minus_1)
  then show ?thesis by (simp add: take_bit_eq_mod)
qed

lemma dec6_enc6: "dec6 (enc6 v) = Some (v mod 64)"
  by (simp add: dec6_def enc6_def and63 index_of_nth distinct_encodeStd length_encodeStd)

lemma enc6_not_pad: "enc6 v \<noteq> CHR ''=''"
proof -
  have "enc6 v \<in> set encodeStd" by (simp add: enc6_def and63 length_encodeStd)
  with pad_not_in show ?thesis by auto
qed

lemma bit_lt: "(a::nat) < 2 ^ n \<Longrightarrow> bit a k \<Longrightarrow> k < n"
  by (metis bit_take_bit_iff take_bit_nat_eq_self)

lemma or_plus:
  fixes x y :: nat
  assumes "x < 2 ^ n"
  shows "push_bit n y OR x = y * 2 ^ n + x"
proof -
  have "push_bit n y AND x = 0"
    by (rule bit_eqI) (use bit_lt[OF assms] in \<open>fastforce simp: bit_simps\<close>)
  then have "push_bit n y + x = push_bit n y OR x" by (rule disjunctive_add_eq_or)
  then show ?thesis by (simp add: push_bit_eq_mult)
qed

lemma val3:
  fixes a b c :: nat
  assumes "a < 256" "b < 256" "c < 256"
  shows "push_bit 16 a OR push_bit 8 b OR c = a * 65536 + b * 256 + c"
proof -
  have 1: "push_bit 8 b OR c = b * 256 + c" using or_plus[of c 8 b] assms by simp
  have "b * 256 + c < 2 ^ 16" using assms by simp
  then have "push_bit 16 a OR (b * 256 + c) = a * 2^16 + (b * 256 + c)" by (rule or_plus)
  then show ?thesis using 1 by (simp add: or.assoc)
qed

lemma val4:
  fixes s0 s1 s2 s3 :: nat
  assumes "s0 < 64" "s1 < 64" "s2 < 64" "s3 < 64"
  shows "pack4 s0 s1 s2 s3 = s0 * 262144 + s1 * 4096 + s2 * 64 + s3"
proof -
  have 1: "push_bit 6 s2 OR s3 = s2 * 64 + s3" using or_plus[of s3 6 s2] assms by simp
  have "s2 * 64 + s3 < 2 ^ 12" using assms by simp
  then have 2: "push_bit 12 s1 OR (s2 * 64 + s3) = s1 * 2^12 + (s2 * 64 + s3)" by (rule or_plus)
  have "s1 * 2^12 + (s2 * 64 + s3) < 2 ^ 18" using assms by simp
  then have 3: "push_bit 18 s0 OR (s1 * 2^12 + (s2 * 64 + s3)) = s0 * 2^18 + (s1 * 2^12 + (s2 * 64 + s3))" by (rule or_plus)
  show ?thesis using 1 2 3 by (simp add: pack4_def or.assoc)
qed

lemma sextets:
  fixes v :: nat
  assumes "v < 16777216"
  shows "(v div 262144 mod 64) * 262144 + (v div 4096 mod 64) * 4096 + (v div 64 mod 64) * 64 + v mod 64 = v"
proof -
  have d1: "v div 4096 = v div 64 div 64" and d2: "v div 262144 = v div 4096 div 64"
    by (simp_all add: div_mult2_eq[symmetric])
  have top: "v div 262144 mod 64 = v div 262144"
    using assms by (simp add: less_mult_imp_div_less)
  have e0: "v = v div 64 * 64 + v mod 64" by simp
  have e1: "v div 64 = v div 4096 * 64 + v div 64 mod 64" unfolding d1 by simp
  have e2: "v div 4096 = v div 262144 * 64 + v div 4096 mod 64" unfolding d2 by simp
  have "v = ((v div 262144 * 64 + v div 4096 mod 64) * 64 + v div 64 mod 64) * 64 + v mod 64"
    using e0 e1 e2 by simp
  then show ?thesis unfolding top by simp
qed

lemma pack4_sextets:
  fixes v :: nat
  assumes "v < 16777216"
  shows "pack4 (drop_bit 18 v mod 64) (drop_bit 12 v mod 64) (drop_bit 6 v mod 64) (v mod 64) = v"
proof -
  define s0 s1 s2 s3 where "s0 = v div 262144 mod 64" and "s1 = v div 4096 mod 64"
    and "s2 = v div 64 mod 64" and "s3 = v mod 64"
  have "pack4 s0 s1 s2 s3 = s0 * 262144 + s1 * 4096 + s2 * 64 + s3"
    by (rule val4) (simp_all add: s0_def s1_def s2_def s3_def)
  also have "\<dots> = v" unfolding s0_def s1_def s2_def s3_def by (rule sextets[OF assms])
  finally show ?thesis by (simp add: drop_bit_eq_div s0_def s1_def s2_def s3_def)
qed

lemma bytes3:
  fixes a b c :: nat
  assumes "a < 256" "b < 256" "c < 256"
  shows "(a * 65536 + b * 256 + c) div 65536 mod 256 = a"
    and "(a * 65536 + b * 256 + c) div 256 mod 256 = b"
    and "(a * 65536 + b * 256 + c) mod 256 = c"
    and "a * 65536 + b * 256 + c < 16777216"
proof -
  have r: "a * 65536 + b * 256 + c = (a * 256 + b) * 256 + c" by simp
  have q: "((a * 256 + b) * 256 + c) div 256 = a * 256 + b" using assms(3) by simp
  show "(a * 65536 + b * 256 + c) div 65536 mod 256 = a" using assms by simp
  show "(a * 65536 + b * 256 + c) div 256 mod 256 = b" unfolding r q using assms(2) by simp
  show "(a * 65536 + b * 256 + c) mod 256 = c"
    using assms(3) by (metis r mod_mult_self3 mod_less)
  show "a * 65536 + b * 256 + c < 16777216" using assms by simp
qed

lemma of_char_lt: "(of_char c :: nat) < 256"
  by (metis of_char_of char_of_char mod_less_divisor zero_less_numeral)

lemma byte_div: "byte (drop_bit n v) = char_of (v div 2 ^ n mod 256)"
  by (simp add: byte_def take_bit_eq_mod drop_bit_eq_div)


lemma decode_quad:
  fixes v :: nat
  assumes "v < 16777216"
  shows "b64decode (enc6 (drop_bit 18 v) # enc6 (drop_bit 12 v) # enc6 (drop_bit 6 v) # enc6 v # rest) =
           (case b64decode rest of
              None \<Rightarrow> None
            | Some bytes \<Rightarrow> Some ([byte (drop_bit 16 v), byte (drop_bit 8 v), byte v] @ bytes))"
  by (simp add: dec6_enc6 enc6_not_pad pack4_sextets[OF assms] cong: option.case_cong)

lemma decode_pad1:
  fixes v :: nat
  assumes "pack4 (drop_bit 18 v mod 64) (drop_bit 12 v mod 64) (drop_bit 6 v mod 64) 0 = v"
  shows "b64decode [enc6 (drop_bit 18 v), enc6 (drop_bit 12 v), enc6 (drop_bit 6 v), CHR ''=''] =
           Some [byte (drop_bit 16 v), byte (drop_bit 8 v)]"
  by (simp add: dec6_enc6 enc6_not_pad assms)

lemma decode_pad2:
  fixes v :: nat
  assumes "pack4 (drop_bit 18 v mod 64) (drop_bit 12 v mod 64) 0 0 = v"
  shows "b64decode [enc6 (drop_bit 18 v), enc6 (drop_bit 12 v), CHR ''='', CHR ''=''] =
           Some [byte (drop_bit 16 v)]"
  by (simp add: dec6_enc6 enc6_not_pad assms)

lemma group3:
  fixes a b c :: char
  defines "v \<equiv> push_bit 16 (of_char a) OR push_bit 8 (of_char b) OR (of_char c :: nat)"
  shows "pack4 (drop_bit 18 v mod 64) (drop_bit 12 v mod 64) (drop_bit 6 v mod 64) (v mod 64) = v"
    and "byte (drop_bit 16 v) = a" and "byte (drop_bit 8 v) = b" and "byte v = c"
proof -
  have v: "v = of_char a * 65536 + of_char b * 256 + of_char c"
    unfolding v_def by (rule val3) (rule of_char_lt)+
  note b3 = bytes3[OF of_char_lt[of a] of_char_lt[of b] of_char_lt[of c], folded v]
  show "pack4 (drop_bit 18 v mod 64) (drop_bit 12 v mod 64) (drop_bit 6 v mod 64) (v mod 64) = v"
    by (rule pack4_sextets) (rule b3(4))
  show "byte (drop_bit 16 v) = a" using b3(1) by (simp add: byte_div)
  show "byte (drop_bit 8 v) = b" using b3(2) by (simp add: byte_div)
  show "byte v = c" using b3(3) by (simp add: byte_def take_bit_eq_mod)
qed

lemma group2:
  fixes a b :: char
  defines "v \<equiv> push_bit 16 (of_char a) OR push_bit 8 (of_char b :: nat)"
  shows "pack4 (drop_bit 18 v mod 64) (drop_bit 12 v mod 64) (drop_bit 6 v mod 64) 0 = v"
    and "byte (drop_bit 16 v) = a" and "byte (drop_bit 8 v) = b"
proof -
  have v0: "v = push_bit 16 (of_char a) OR push_bit 8 (of_char b) OR (of_char (CHR 0x00) :: nat)"
    by (simp add: v_def)
  have z: "v mod 64 = 0"
  proof -
    have "v = of_char a * 65536 + of_char b * 256 + 0"
      unfolding v_def using val3[OF of_char_lt[of a] of_char_lt[of b], of 0] by simp
    then have "v = (of_char a * 1024 + of_char b * 4) * 64" by simp
    then show ?thesis by (metis mod_mult_self2_is_0)
  qed
  from group3[of a b "CHR 0x00", folded v0] z
  show "pack4 (drop_bit 18 v mod 64) (drop_bit 12 v mod 64) (drop_bit 6 v mod 64) 0 = v"
    and "byte (drop_bit 16 v) = a" and "byte (drop_bit 8 v) = b"
    by simp_all
qed

lemma group1:
  fixes a :: char
  defines "v \<equiv> push_bit 16 (of_char a :: nat)"
  shows "pack4 (drop_bit 18 v mod 64) (drop_bit 12 v mod 64) 0 0 = v"
    and "byte (drop_bit 16 v) = a"
proof -
  have v0: "v = push_bit 16 (of_char a) OR push_bit 8 (of_char (CHR 0x00) :: nat)"
    by (simp add: v_def)
  have z: "drop_bit 6 v mod 64 = 0"
  proof -
    have "v = of_char a * 1024 * 64" by (simp add: v_def push_bit_eq_mult)
    then have "drop_bit 6 v = of_char a * 16 * 64" by (simp add: drop_bit_eq_div)
    then show ?thesis by (metis mod_mult_self2_is_0)
  qed
  from group2[of a "CHR 0x00", folded v0] z
  show "pack4 (drop_bit 18 v mod 64) (drop_bit 12 v mod 64) 0 0 = v"
    and "byte (drop_bit 16 v) = a"
    by simp_all
qed

lemma b64_roundtrip: "b64decode (b64encode bs) = Some bs"
proof (induction bs rule: b64encode.induct)
  case (1 a b c rest)
  define v :: nat where "v = push_bit 16 (of_char a) OR push_bit 8 (of_char b) OR of_char c"
  have lt: "v < 16777216"
    unfolding v_def val3[OF of_char_lt of_char_lt of_char_lt]
    by (rule bytes3(4)) (rule of_char_lt)+
  have "b64encode (a # b # c # rest) =
          enc6 (drop_bit 18 v) # enc6 (drop_bit 12 v) # enc6 (drop_bit 6 v) # enc6 v # b64encode rest"
    by (simp only: b64encode.simps Let_def v_def append.simps)
  then have "b64decode (b64encode (a # b # c # rest)) =
          Some ([byte (drop_bit 16 v), byte (drop_bit 8 v), byte v] @ rest)"
    by (simp only: decode_quad[OF lt] "1.IH" option.case)
  then show ?case by (simp only: v_def group3 append.simps)
next
  case (2 a b)
  define v :: nat where "v = push_bit 16 (of_char a) OR push_bit 8 (of_char b)"
  have "b64encode [a, b] =
          [enc6 (drop_bit 18 v), enc6 (drop_bit 12 v), enc6 (drop_bit 6 v), CHR ''='']"
    by (simp only: b64encode.simps Let_def v_def)
  then have "b64decode (b64encode [a, b]) = Some [byte (drop_bit 16 v), byte (drop_bit 8 v)]"
    by (simp only: decode_pad1[OF group2(1)[of a b, folded v_def]])
  then show ?case by (simp only: v_def group2)
next
  case (3 a)
  define v :: nat where "v = push_bit 16 (of_char a)"
  have "b64encode [a] = [enc6 (drop_bit 18 v), enc6 (drop_bit 12 v), CHR ''='', CHR ''='']"
    by (simp only: b64encode.simps Let_def v_def)
  then have "b64decode (b64encode [a]) = Some [byte (drop_bit 16 v)]"
    by (simp only: decode_pad2[OF group1(1)[of a, folded v_def]])
  then show ?case by (simp only: v_def group1)
next
  case 4
  show ?case by simp
qed

lemma enc6_mod: "enc6 v = encodeStd ! (v mod 64)" by (simp add: enc6_def and63)

lemma b64encode_arith:
  "b64encode (a # b # c # rest) =
     (let v = of_char a * 65536 + of_char b * 256 + of_char c
      in encodeStd ! (v div 262144 mod 64) # encodeStd ! (v div 4096 mod 64) #
         encodeStd ! (v div 64 mod 64) # encodeStd ! (v mod 64) # b64encode rest)"
  "b64encode [a, b] =
     (let v = of_char a * 65536 + of_char b * 256
      in [encodeStd ! (v div 262144 mod 64), encodeStd ! (v div 4096 mod 64),
          encodeStd ! (v div 64 mod 64), CHR ''=''])"
proof -
  have v3: "push_bit 16 (of_char a) OR push_bit 8 (of_char b) OR of_char c =
        (of_char a * 65536 + of_char b * 256 + of_char c :: nat)"
    by (rule val3) (rule of_char_lt)+
  show "b64encode (a # b # c # rest) =
     (let v = of_char a * 65536 + of_char b * 256 + of_char c
      in encodeStd ! (v div 262144 mod 64) # encodeStd ! (v div 4096 mod 64) #
         encodeStd ! (v div 64 mod 64) # encodeStd ! (v mod 64) # b64encode rest)"
    by (simp only: b64encode.simps v3 Let_def enc6_mod drop_bit_eq_div append.simps) simp
  have v2: "push_bit 16 (of_char a) OR push_bit 8 (of_char b) =
        (of_char a * 65536 + of_char b * 256 :: nat)"
    using val3[OF of_char_lt[of a] of_char_lt[of b], of 0] by simp
  show "b64encode [a, b] =
     (let v = of_char a * 65536 + of_char b * 256
      in [encodeStd ! (v div 262144 mod 64), encodeStd ! (v div 4096 mod 64),
          encodeStd ! (v div 64 mod 64), CHR ''=''])"
    by (simp only: b64encode.simps v2 Let_def enc6_mod drop_bit_eq_div) simp
qed

lemma b64_hello: "b64encode helloGz = ''H4sIAAAAAAAA/8pIzcnJBwQAAP//hqYQNgUAAAA=''"
  by (simp add: helloGz_def b64encode_arith encodeStd_def Let_def del: b64encode.simps)

text \<open>
  C2. For every file content \<open>F\<close>: when the file can be read, \<open>encodeFile\<close> returns the
  base64 text of the gzip stream of \<open>F\<close>, and the inverse pipeline, base64 decoding
  followed by decompression, gives back exactly \<open>F\<close>. The compressor is library code; what
  is asked of it is that its stream for \<open>F\<close> decompresses to \<open>F\<close>. The base64 half is
  proved for every byte sequence (\<open>b64_roundtrip\<close>).
\<close>

theorem encodeFile_roundtrip:
  assumes "readFile w localFile = Content F" and "gunzip (gzip w F) = Some F"
  shows "encodeFile w localFile = Inr (b64encode (gzip w F))
       \<and> decodePipeline gunzip (b64encode (gzip w F)) = Some F"
  using assms by (simp add: encodeFile_def decodePipeline_def b64_roundtrip)

theorem encodeFile_roundtrip_witness:
  "encodeFile exampleWorld ''hello.txt'' = Inr ''H4sIAAAAAAAA/8pIzcnJBwQAAP//hqYQNgUAAAA=''
   \<and> decodePipeline exampleGunzip ''H4sIAAAAAAAA/8pIzcnJBwQAAP//hqYQNgUAAAA='' = Some ''hello''"
proof -
  have r: "readFile exampleWorld ''hello.txt'' = Content ''hello''"
    by (simp add: exampleWorld_def)
  have g: "exampleGunzip (gzip exampleWorld ''hello'') = Some ''hello''"
    by (simp add: exampleWorld_def exampleGunzip_def)
  have z: "gzip exampleWorld ''hello'' = helloGz" by (simp add: exampleWorld_def)
  show ?thesis using encodeFile_roundtrip[of exampleWorld "''hello.txt''" "''hello''" exampleGunzip, OF r g] by (simp only: z b64_hello simp_thms)
qed

subsection \<open>The sequence of commands of a transfer\<close>

lemma sendCommands_healthy:
  "healthy c \<Longrightarrow> sendCommands fmt c cmds = (None, pushed c (map cmdLine cmds))"
proof (induction cmds arbitrary: c)
  case Nil
  show ?case by simp
next
  case (Cons cmd rest)
  have "SendJSON c (CmdMsg ''cmd'' (cmd @ ''\<newline>'')) = (None, pushed c [cmdLine cmd])"
    using Cons.prems by (simp add: SendJSON_healthy cmdLine_def)
  moreover have "sendCommands fmt (pushed c [cmdLine cmd]) rest =
      (None, pushed (pushed c [cmdLine cmd]) (map cmdLine rest))"
    by (rule Cons.IH) (simp add: Cons.prems)
  ultimately show ?case by simp
qed

lemma transferCore_healthy:
  assumes "healthy c" and "readFile w localFile = Content F"
  shows "transferCore w c localFile =
           (None, pushed c (CmdMsg ''cmd'' (handshakeMsg (Base localFile)) #
                            map cmdLine (chunksOf (b64encode (gzip w F))) @ [cmdLine endMarker]))"
proof -
  let ?h = "CmdMsg ''cmd'' (handshakeMsg (Base localFile))"
  let ?blob = "b64encode (gzip w F)"
  have 1: "SendJSON c ?h = (None, pushed c [?h])" using assms(1) by (rule SendJSON_healthy)
  have 2: "encodeFile w localFile = Inr ?blob" using assms(2) by (simp add: encodeFile_def)
  have 3: "sendEncodedData (pushed c [?h]) ?blob =
             (None, pushed c (?h # map cmdLine (chunksOf ?blob)))"
    using sendEncodedData_healthy[of "pushed c [?h]" ?blob] assms(1) by simp
  have 4: "SendJSON (pushed c (?h # map cmdLine (chunksOf ?blob))) (CmdMsg ''cmd'' (endMarker @ ''\<newline>'')) =
             (None, pushed c (?h # map cmdLine (chunksOf ?blob) @ [cmdLine endMarker]))"
    using SendJSON_healthy[of "pushed c (?h # map cmdLine (chunksOf ?blob))"] assms(1)
    by (simp add: cmdLine_def)
  show ?thesis by (simp add: transferCore_def Let_def 1 2 3 4)
qed

lemma Base_simple:
  assumes "name \<noteq> []" and "CHR ''/'' \<notin> set name"
  shows "Base name = name" and "Base (dir @ ''/'' @ name) = name"
proof -
  have nd: "dropWhile (\<lambda>c. c = CHR ''/'') (rev name) = rev name"
    using assms by (cases "rev name") auto
  have tw: "takeWhile (\<lambda>c. c \<noteq> CHR ''/'') (rev name) = rev name"
    using assms(2) by (auto simp: takeWhile_eq_all_conv)
  show "Base name = name" using assms(1) by (simp add: Base_def stripSlashes_def lastElement_def nd tw)
  have nd2: "dropWhile (\<lambda>c. c = CHR ''/'') (rev name @ CHR ''/'' # rev dir) = rev name @ CHR ''/'' # rev dir"
    using assms by (cases "rev name") auto
  have tw2: "takeWhile (\<lambda>c. c \<noteq> CHR ''/'') (rev name @ CHR ''/'' # rev dir) = rev name"
    using assms(2) by (auto simp: takeWhile_append takeWhile_eq_all_conv)
  show "Base (dir @ ''/'' @ name) = name"
    using assms(1) by (simp add: Base_def stripSlashes_def lastElement_def nd2 tw2)
qed

lemma transferFile2_healthy:
  assumes "healthy c" and "readFile w localFile = Content F"
  shows "transferFile2 w c localFile =
           (None, pushed c (CmdMsg ''cmd'' (handshakeMsg (Base localFile)) #
                            map cmdLine (chunksOf (b64encode (gzip w F))) @
                            [cmdLine endMarker] @ map cmdLine postCommands))"
  using sendCommands_healthy[of "pushed c (CmdMsg ''cmd'' (handshakeMsg (Base localFile)) #
           map cmdLine (chunksOf (b64encode (gzip w F))) @ [cmdLine endMarker])"] assms(1)
  by (simp add: transferFile2_def transferCore_healthy[OF assms])

lemma example_blob:
  "b64encode (gzip exampleWorld ''hello'') = ''H4sIAAAAAAAA/8pIzcnJBwQAAP//hqYQNgUAAAA=''"
  by (simp add: exampleWorld_def b64_hello)

lemma example_chunks:
  "chunksOf ''H4sIAAAAAAAA/8pIzcnJBwQAAP//hqYQNgUAAAA='' = [''H4sIAAAAAAAA/8pIzcnJBwQAAP//hqYQNgUAAAA='']"
  by (simp add: chunksOf_def segment_def chunkSize_def)

lemma example_base: "Base ''/tmp/hello.txt'' = ''hello.txt''"
  using Base_simple(2)[of "''hello.txt''" "''/tmp''"] by simp

lemma example_healthy: "healthy freshConnection"
  by (simp add: healthy_def freshConnection_def)

lemma example_file: "readFile exampleWorld ''/tmp/hello.txt'' = Content ''hello''"
  by (simp add: exampleWorld_def)

text \<open>
  C9, as stated, fails on the second copy of \<open>transferFile\<close>: for the file \<open>/tmp/hello.txt\<close>
  of the example world it sends five \<open>Cmd\<close> messages, the last two after the terminator,
  and not the three of the claim.
\<close>

theorem transferFile2_post_commands:
  "frames (snd (transferFile2 exampleWorld freshConnection ''/tmp/hello.txt'')) =
     [CmdMsg ''cmd'' ''cat <<'__EOF' |base64 --decode |gunzip > hello.txt\<newline>'',
      CmdMsg ''cmd'' ''H4sIAAAAAAAA/8pIzcnJBwQAAP//hqYQNgUAAAA=\<newline>'',
      CmdMsg ''cmd'' ''__EOF\<newline>'',
      CmdMsg ''cmd'' ''reset\<newline>'',
      CmdMsg ''cmd'' (''echo 'it works'' @ [CHR 0x27, CHR ''\<newline>''])]
   \<and> frames (snd (transferFile2 exampleWorld freshConnection ''/tmp/hello.txt'')) \<noteq>
     [CmdMsg ''cmd'' ''cat <<'__EOF' |base64 --decode |gunzip > hello.txt\<newline>'',
      CmdMsg ''cmd'' ''H4sIAAAAAAAA/8pIzcnJBwQAAP//hqYQNgUAAAA=\<newline>'',
      CmdMsg ''cmd'' ''__EOF\<newline>'']"
proof -
  have "transferFile2 exampleWorld freshConnection ''/tmp/hello.txt'' =
      (None, pushed freshConnection
        [CmdMsg ''cmd'' ''cat <<'__EOF' |base64 --decode |gunzip > hello.txt\<newline>'',
         CmdMsg ''cmd'' ''H4sIAAAAAAAA/8pIzcnJBwQAAP//hqYQNgUAAAA=\<newline>'',
         CmdMsg ''cmd'' ''__EOF\<newline>'',
         CmdMsg ''cmd'' ''reset\<newline>'',
         CmdMsg ''cmd'' (''echo 'it works'' @ [CHR 0x27, CHR ''\<newline>''])])"
    by (simp add: transferFile2_healthy[OF example_healthy example_file] example_blob
          example_chunks example_base cmdLine_def handshakeMsg_def endMarker_def postCommands_def)
  then show ?thesis by (simp add: pushed_def freshConnection_def)
qed

text \<open>
  C9, amended. For a file that can be read, on a connection that stays up, both copies
  of \<open>transferFile\<close> send first the handshake command, the template followed by the
  basename of the path and a line break, then the chunks of the encoded file in order,
  then the terminator line \<open>__EOF\<close>, with nothing in between. \<open>transferFile\<close> of
  \<open>wcp/main.go\<close> sends nothing else; the copy with the size limit then sends its two post
  commands, \<open>reset\<close> and \<open>echo 'it works'\<close>. The basename of a path that ends in a name
  without a slash is that name.
\<close>

theorem transferFile_sequence:
  assumes "healthy c" and "readFile w localFile = Content F"
  shows "transferFile w c localFile =
           (None, pushed c
              (CmdMsg ''cmd'' (''cat <<'__EOF' |base64 --decode |gunzip > '' @ Base localFile @ ''\<newline>'') #
               map cmdLine (chunksOf (b64encode (gzip w F))) @
               [CmdMsg ''cmd'' ''__EOF\<newline>'']))
       \<and> transferFile2 w c localFile =
           (None, pushed c
              (CmdMsg ''cmd'' (''cat <<'__EOF' |base64 --decode |gunzip > '' @ Base localFile @ ''\<newline>'') #
               map cmdLine (chunksOf (b64encode (gzip w F))) @
               [CmdMsg ''cmd'' ''__EOF\<newline>'',
                CmdMsg ''cmd'' ''reset\<newline>'',
                CmdMsg ''cmd'' (''echo 'it works'' @ [CHR 0x27, CHR ''\<newline>''])]))
       \<and> (\<forall>dir name. name \<noteq> [] \<and> CHR ''/'' \<notin> set name \<longrightarrow>
              Base name = name \<and> Base (dir @ ''/'' @ name) = name)"
  using transferCore_healthy[OF assms] transferFile2_healthy[OF assms] Base_simple
  by (simp add: transferFile_def handshakeMsg_def cmdLine_def endMarker_def postCommands_def)

theorem transferFile_sequence_witness:
  "frames (snd (transferFile exampleWorld freshConnection ''/tmp/hello.txt'')) =
     [CmdMsg ''cmd'' ''cat <<'__EOF' |base64 --decode |gunzip > hello.txt\<newline>'',
      CmdMsg ''cmd'' ''H4sIAAAAAAAA/8pIzcnJBwQAAP//hqYQNgUAAAA=\<newline>'',
      CmdMsg ''cmd'' ''__EOF\<newline>'']
   \<and> fst (transferFile exampleWorld freshConnection ''/tmp/hello.txt'') = None
   \<and> fst (transferFile2 exampleWorld freshConnection ''/tmp/hello.txt'') = None
   \<and> length (frames (snd (transferFile2 exampleWorld freshConnection ''/tmp/hello.txt''))) = 5"
proof -
  note t = transferFile_sequence[OF example_healthy example_file]
  have 1: "transferFile exampleWorld freshConnection ''/tmp/hello.txt'' =
      (None, pushed freshConnection
        [CmdMsg ''cmd'' ''cat <<'__EOF' |base64 --decode |gunzip > hello.txt\<newline>'',
         CmdMsg ''cmd'' ''H4sIAAAAAAAA/8pIzcnJBwQAAP//hqYQNgUAAAA=\<newline>'',
         CmdMsg ''cmd'' ''__EOF\<newline>''])"
    using t by (simp add: example_blob example_chunks example_base cmdLine_def)
  have 2: "transferFile2 exampleWorld freshConnection ''/tmp/hello.txt'' =
      (None, pushed freshConnection
        [CmdMsg ''cmd'' ''cat <<'__EOF' |base64 --decode |gunzip > hello.txt\<newline>'',
         CmdMsg ''cmd'' ''H4sIAAAAAAAA/8pIzcnJBwQAAP//hqYQNgUAAAA=\<newline>'',
         CmdMsg ''cmd'' ''__EOF\<newline>'',
         CmdMsg ''cmd'' ''reset\<newline>'',
         CmdMsg ''cmd'' (''echo 'it works'' @ [CHR 0x27, CHR ''\<newline>''])])"
    using t by (simp add: example_blob example_chunks example_base cmdLine_def)
  show ?thesis unfolding 1 2 by (simp add: pushed_def freshConnection_def)
qed

subsection \<open>The size limit of wcp\<close>

lemma wcpChecks_too_large:
  assumes "stat w localFile = FileInfo fileSize" and "fileSize > maxFileSize"
  shows "wcpChecks w False configPath arg localFile =
           ([Out (Printf ''Error: File '%s' is %d bytes (%.2f KB), which exceeds the 32KB limit.\<newline>''
                    [Str localFile, Num fileSize, Quot fileSize 1024]),
             Out (Println ''Use --force flag to transfer files larger than 32KB.''),
             Out (Println ''Note: wcp is designed for small file transfers.'')],
            Exit 1)"
    and "wcpChecks w True configPath arg localFile =
           (Out (Printf ''Warning: Transferring large file '%s' (%d bytes, %.2f KB) with --force flag.\<newline>''
                   [Str localFile, Num fileSize, Quot fileSize 1024]) #
              fst (wcpTransfer w configPath arg localFile),
            snd (wcpTransfer w configPath arg localFile))"
  using assms by (simp_all add: wcpChecks_def)

lemma setupTTY_healthy:
  "healthy c \<Longrightarrow> setupTTY c = (None, pushed c (map cmdLine
       [''stty -echo'', ''stty -icanon'', ''stty -isig'', ''stty -iexten'', ''stty -echoctl'',
        ''stty -echoke'', ''stty -echoprt'', ''stty -echoe'', ''stty -echonl'']))"
  unfolding setupTTY_def by (rule sendCommands_healthy)

lemma wcpSession_healthy:
  assumes "healthy c" and "readFile w localFile = Content F"
  shows "wcpSession w c localFile =
           (map Wrote
              (frames c @
               map cmdLine
                 [''stty -echo'', ''stty -icanon'', ''stty -isig'', ''stty -iexten'',
                  ''stty -echoctl'', ''stty -echoke'', ''stty -echoprt'', ''stty -echoe'',
                  ''stty -echonl''] @
               CmdMsg ''cmd'' (handshakeMsg (Base localFile)) #
               map cmdLine (chunksOf (b64encode (gzip w F))) @
               [cmdLine endMarker] @ map cmdLine postCommands) @
            [Out (Printf ''File '%s' successfully transferred\<newline>'' [Str localFile]),
             Out (Println ''Waiting for response...'')] @
            map (\<lambda>msg. Out (Printf ''Received: %s'' [Str msg])) (responses w) @
            [Out (Printf ''Connection closed: %v\<newline>'' [Err (IOError ''websocket.ReadMessage'')])],
            Done)"
proof -
  let ?stty = "map cmdLine
                 [''stty -echo'', ''stty -icanon'', ''stty -isig'', ''stty -iexten'',
                  ''stty -echoctl'', ''stty -echoke'', ''stty -echoprt'', ''stty -echoe'',
                  ''stty -echonl'']"
  let ?rest = "CmdMsg ''cmd'' (handshakeMsg (Base localFile)) #
               map cmdLine (chunksOf (b64encode (gzip w F))) @
               [cmdLine endMarker] @ map cmdLine postCommands"
  have 1: "setupTTY c = (None, pushed c ?stty)" using assms(1) by (rule setupTTY_healthy)
  have h1: "healthy (pushed c ?stty)" using assms(1) by (rule healthy_pushed)
  have 2: "transferFile2 w (pushed c ?stty) localFile = (None, pushed (pushed c ?stty) ?rest)"
    by (rule transferFile2_healthy[OF h1 assms(2)])
  have f: "frames (pushed (pushed c ?stty) ?rest) = frames c @ ?stty @ ?rest"
    by (simp add: pushed_def)
  show ?thesis by (simp only: wcpSession_def 1 2 f prod.case option.case)
qed

lemma NewConnection_Connected_fresh:
  assumes "network w url = Connected" and "linkBudget w = None"
  shows "NewConnection w url =
           ([Out (Printf ''Connecting to %s...\<newline>'' [Str url]), Dial url], Inr freshConnection)"
  using assms by (simp add: NewConnection_def freshConnection_def)

lemma wcpTransfer_healthy:
  assumes "wcpResolve w configPath arg = (printed, Inr targetURL)"
    and "network w targetURL = Connected" and "linkBudget w = None"
    and "readFile w localFile = Content F"
  shows "wcpTransfer w configPath arg localFile =
           (map Out printed @
            [Out (Printf ''Connecting to %s...\<newline>'' [Str targetURL]), Dial targetURL] @
            map Wrote
              (map cmdLine
                 [''stty -echo'', ''stty -icanon'', ''stty -isig'', ''stty -iexten'',
                  ''stty -echoctl'', ''stty -echoke'', ''stty -echoprt'', ''stty -echoe'',
                  ''stty -echonl''] @
               CmdMsg ''cmd'' (handshakeMsg (Base localFile)) #
               map cmdLine (chunksOf (b64encode (gzip w F))) @
               [cmdLine endMarker] @ map cmdLine postCommands) @
            [Out (Printf ''File '%s' successfully transferred\<newline>'' [Str localFile]),
             Out (Println ''Waiting for response...'')] @
            map (\<lambda>msg. Out (Printf ''Received: %s'' [Str msg])) (responses w) @
            [Out (Printf ''Connection closed: %v\<newline>'' [Err (IOError ''websocket.ReadMessage'')])],
            Done)"
proof -
  have h: "healthy freshConnection" by (simp add: healthy_def freshConnection_def)
  have e: "frames freshConnection = []" by (simp add: freshConnection_def)
  note s = wcpSession_healthy[OF h assms(4), unfolded e append_Nil]
  show ?thesis
    by (simp only: wcpTransfer_def assms(1) NewConnection_Connected_fresh[OF assms(2,3)] s
          prod.case sum.case fst_conv snd_conv)
qed

lemma wcpChecks_within_limit:
  assumes "stat w localFile = FileInfo fileSize" and "fileSize \<le> maxFileSize"
  shows "wcpChecks w force configPath arg localFile = wcpTransfer w configPath arg localFile"
  using assms by (simp add: wcpChecks_def)

lemma b64encode_arith1:
  "b64encode [a] =
     (let v = of_char a * 65536
      in [encodeStd ! (v div 262144 mod 64), encodeStd ! (v div 4096 mod 64), CHR ''='', CHR ''=''])"
proof -
  have v1: "push_bit 16 (of_char a) = (of_char a * 65536 :: nat)"
    by (simp add: push_bit_eq_mult)
  show ?thesis
    by (simp only: b64encode.simps v1 Let_def enc6_mod drop_bit_eq_div) simp
qed

lemma b64_big:
  "b64encode bigGz =
     ''H4sIAAAAAAAA/+3BAQEAAACAkNvN7wgKAAAAAAAAAAAAAAAAAAAAAAAAAAAAAAAAAAAAAAAAAGi+2gVgAYAAAA==''"
  by (simp add: bigGz_def b64encode_arith b64encode_arith1 encodeStd_def Let_def
        del: b64encode.simps)

lemma length_bigFile: "int (length bigFile) = 32769"
  by (simp add: bigFile_def)

text \<open>
  C6. For a source file of more than 32 KiB (32769 bytes, for one): without \<open>--force\<close>,
  \<open>main\<close> prints the error, which names the size and says to use \<open>--force\<close>, and exits
  with code 1; nothing has been dialled and no frame has been written. With \<open>--force\<close> it
  prints the warning and goes on with the transfer: when the endpoint resolves, the dial
  connects, the link stays up and the file can be read, it dials, sends the commands that
  set up the remote terminal, the handshake, every chunk of the encoded file, the
  terminator and the post commands, prints the answers and ends normally.
\<close>

theorem size_gate:
  assumes "stat w localFile = FileInfo fileSize" and "fileSize > 32 * 1024"
  shows "wcpMain w False [arg, localFile] =
           ([Out (Printf ''Error: File '%s' is %d bytes (%.2f KB), which exceeds the 32KB limit.\<newline>''
                    [Str localFile, Num fileSize, Quot fileSize 1024]),
             Out (Println ''Use --force flag to transfer files larger than 32KB.''),
             Out (Println ''Note: wcp is designed for small file transfers.'')],
            Exit 1)
       \<and> (\<forall>url. Dial url \<notin> set (fst (wcpMain w False [arg, localFile])))
       \<and> (\<forall>m. Wrote m \<notin> set (fst (wcpMain w False [arg, localFile])))
       \<and> wcpMain w True [arg, localFile] =
           (Out (Printf ''Warning: Transferring large file '%s' (%d bytes, %.2f KB) with --force flag.\<newline>''
                   [Str localFile, Num fileSize, Quot fileSize 1024]) #
              fst (wcpTransfer w (GetDefaultConfigPath w) arg localFile),
            snd (wcpTransfer w (GetDefaultConfigPath w) arg localFile))
       \<and> (\<forall>printed targetURL F.
             wcpResolve w (GetDefaultConfigPath w) arg = (printed, Inr targetURL)
             \<and> network w targetURL = Connected \<and> linkBudget w = None
             \<and> readFile w localFile = Content F \<longrightarrow>
             wcpMain w True [arg, localFile] =
               (Out (Printf ''Warning: Transferring large file '%s' (%d bytes, %.2f KB) with --force flag.\<newline>''
                       [Str localFile, Num fileSize, Quot fileSize 1024]) #
                map Out printed @
                [Out (Printf ''Connecting to %s...\<newline>'' [Str targetURL]), Dial targetURL] @
                map Wrote
                  (map cmdLine
                     [''stty -echo'', ''stty -icanon'', ''stty -isig'', ''stty -iexten'',
                      ''stty -echoctl'', ''stty -echoke'', ''stty -echoprt'', ''stty -echoe'',
                      ''stty -echonl''] @
                   CmdMsg ''cmd''
                     (''cat <<'__EOF' |base64 --decode |gunzip > '' @ Base localFile @ ''\<newline>'') #
                   map cmdLine (chunksOf (b64encode (gzip w F))) @
                   [CmdMsg ''cmd'' ''__EOF\<newline>'',
                    CmdMsg ''cmd'' ''reset\<newline>'',
                    CmdMsg ''cmd'' (''echo 'it works'' @ [CHR 0x27, CHR ''\<newline>''])]) @
                [Out (Printf ''File '%s' successfully transferred\<newline>'' [Str localFile]),
                 Out (Println ''Waiting for response...'')] @
                map (\<lambda>msg. Out (Printf ''Received: %s'' [Str msg])) (responses w) @
                [Out (Printf ''Connection closed: %v\<newline>''
                        [Err (IOError ''websocket.ReadMessage'')])],
                Done))"
proof -
  have big: "fileSize > maxFileSize" using assms(2) by (simp add: maxFileSize_def)
  note c = wcpChecks_too_large[OF assms(1) big]
  have m: "wcpMain w force [arg, localFile] =
             wcpChecks w force (GetDefaultConfigPath w) arg localFile" for force
    by (simp add: wcpMain_def)
  have a: "wcpMain w False [arg, localFile] =
           ([Out (Printf ''Error: File '%s' is %d bytes (%.2f KB), which exceeds the 32KB limit.\<newline>''
                    [Str localFile, Num fileSize, Quot fileSize 1024]),
             Out (Println ''Use --force flag to transfer files larger than 32KB.''),
             Out (Println ''Note: wcp is designed for small file transfers.'')],
            Exit 1)"
    by (simp only: m c)
  have b: "wcpMain w True [arg, localFile] =
           (Out (Printf ''Warning: Transferring large file '%s' (%d bytes, %.2f KB) with --force flag.\<newline>''
                   [Str localFile, Num fileSize, Quot fileSize 1024]) #
              fst (wcpTransfer w (GetDefaultConfigPath w) arg localFile),
            snd (wcpTransfer w (GetDefaultConfigPath w) arg localFile))"
    by (simp only: m c)
  have d: "\<forall>url. Dial url \<notin> set (fst (wcpMain w False [arg, localFile]))"
    and e: "\<forall>m. Wrote m \<notin> set (fst (wcpMain w False [arg, localFile]))"
    unfolding a by simp_all
  have f: "wcpMain w True [arg, localFile] =
               (Out (Printf ''Warning: Transferring large file '%s' (%d bytes, %.2f KB) with --force flag.\<newline>''
                       [Str localFile, Num fileSize, Quot fileSize 1024]) #
                map Out printed @
                [Out (Printf ''Connecting to %s...\<newline>'' [Str targetURL]), Dial targetURL] @
                map Wrote
                  (map cmdLine
                     [''stty -echo'', ''stty -icanon'', ''stty -isig'', ''stty -iexten'',
                      ''stty -echoctl'', ''stty -echoke'', ''stty -echoprt'', ''stty -echoe'',
                      ''stty -echonl''] @
                   CmdMsg ''cmd''
                     (''cat <<'__EOF' |base64 --decode |gunzip > '' @ Base localFile @ ''\<newline>'') #
                   map cmdLine (chunksOf (b64encode (gzip w F))) @
                   [CmdMsg ''cmd'' ''__EOF\<newline>'',
                    CmdMsg ''cmd'' ''reset\<newline>'',
                    CmdMsg ''cmd'' (''echo 'it works'' @ [CHR 0x27, CHR ''\<newline>''])]) @
                [Out (Printf ''File '%s' successfully transferred\<newline>'' [Str localFile]),
                 Out (Println ''Waiting for response...'')] @
                map (\<lambda>msg. Out (Printf ''Received: %s'' [Str msg])) (responses w) @
                [Out (Printf ''Connection closed: %v\<newline>''
                        [Err (IOError ''websocket.ReadMessage'')])],
                Done)"
    if h: "wcpResolve w (GetDefaultConfigPath w) arg = (printed, Inr targetURL)"
      "network w targetURL = Connected" "linkBudget w = None"
      "readFile w localFile = Content F"
    for printed targetURL F
    unfolding b wcpTransfer_healthy[OF h]
    by (simp add: handshakeMsg_def endMarker_def postCommands_def cmdLine_def)
  show ?thesis using a b d e f by blast
qed

lemma big_chunks:
  "chunksOf ''H4sIAAAAAAAA/+3BAQEAAACAkNvN7wgKAAAAAAAAAAAAAAAAAAAAAAAAAAAAAAAAAAAAAAAAAGi+2gVgAYAAAA=='' =
     [''H4sIAAAAAAAA/+3BAQEAAACAkNvN7wgKAAAAAAAAAAAAAAAAAAAAAAAAAAAAAAAAAAAAAAAAAGi+2gVgAYAAAA=='']"
  by (simp add: chunksOf_def segment_def chunkSize_def)

theorem size_gate_witness:
  "wcpMain bigFileWorld False [''prod'', ''big.bin''] =
     ([Out (Printf ''Error: File '%s' is %d bytes (%.2f KB), which exceeds the 32KB limit.\<newline>''
              [Str ''big.bin'', Num 32769, Quot 32769 1024]),
       Out (Println ''Use --force flag to transfer files larger than 32KB.''),
       Out (Println ''Note: wcp is designed for small file transfers.'')],
      Exit 1)
   \<and> wcpMain bigFileWorld True [''prod'', ''big.bin''] =
     ([Out (Printf ''Warning: Transferring large file '%s' (%d bytes, %.2f KB) with --force flag.\<newline>''
              [Str ''big.bin'', Num 32769, Quot 32769 1024]),
       Out (Printf ''Copying to endpoint '%s' (%s)...\<newline>'' [Str ''prod'', Str ''production'']),
       Out (Printf ''Connecting to %s...\<newline>'' [Str ''ws://prod.example:8080/ws'']),
       Dial ''ws://prod.example:8080/ws'',
       Wrote (CmdMsg ''cmd'' ''stty -echo\<newline>''),
       Wrote (CmdMsg ''cmd'' ''stty -icanon\<newline>''),
       Wrote (CmdMsg ''cmd'' ''stty -isig\<newline>''),
       Wrote (CmdMsg ''cmd'' ''stty -iexten\<newline>''),
       Wrote (CmdMsg ''cmd'' ''stty -echoctl\<newline>''),
       Wrote (CmdMsg ''cmd'' ''stty -echoke\<newline>''),
       Wrote (CmdMsg ''cmd'' ''stty -echoprt\<newline>''),
       Wrote (CmdMsg ''cmd'' ''stty -echoe\<newline>''),
       Wrote (CmdMsg ''cmd'' ''stty -echonl\<newline>''),
       Wrote (CmdMsg ''cmd'' ''cat <<'__EOF' |base64 --decode |gunzip > big.bin\<newline>''),
       Wrote (CmdMsg ''cmd''
         ''H4sIAAAAAAAA/+3BAQEAAACAkNvN7wgKAAAAAAAAAAAAAAAAAAAAAAAAAAAAAAAAAAAAAAAAAGi+2gVgAYAAAA==\<newline>''),
       Wrote (CmdMsg ''cmd'' ''__EOF\<newline>''),
       Wrote (CmdMsg ''cmd'' ''reset\<newline>''),
       Wrote (CmdMsg ''cmd'' (''echo 'it works'' @ [CHR 0x27, CHR ''\<newline>''])),
       Out (Printf ''File '%s' successfully transferred\<newline>'' [Str ''big.bin'']),
       Out (Println ''Waiting for response...''),
       Out (Printf ''Received: %s'' [Str ''ok'']),
       Out (Printf ''Connection closed: %v\<newline>'' [Err (IOError ''websocket.ReadMessage'')])],
      Done)"
proof -
  have st: "stat bigFileWorld ''big.bin'' = FileInfo 32769" by (simp add: bigFileWorld_def)
  have sz: "(32769 :: int) > 32 * 1024" by simp
  note g = size_gate[OF st sz, of "''prod''"]
  have res: "wcpResolve bigFileWorld (GetDefaultConfigPath bigFileWorld) ''prod'' =
      ([Printf ''Copying to endpoint '%s' (%s)...\<newline>'' [Str ''prod'', Str ''production'']],
       Inr ''ws://prod.example:8080/ws'')"
    using IsURL_never[of "''prod''"]
    by (simp add: wcpResolve_def LoadConfig_def FindEndpoint_def bigFileWorld_def exampleWorld_def)
  have net: "network bigFileWorld ''ws://prod.example:8080/ws'' = Connected"
    and lb: "linkBudget bigFileWorld = None"
    and rf: "readFile bigFileWorld ''big.bin'' = Content bigFile"
    and rs: "responses bigFileWorld = [''ok'']"
    and gz: "gzip bigFileWorld bigFile = bigGz"
    by (simp_all add: bigFileWorld_def exampleWorld_def)
  have base: "Base ''big.bin'' = ''big.bin''"
    using Base_simple(1)[of "''big.bin''"] by simp
  from g have a: "wcpMain bigFileWorld False [''prod'', ''big.bin''] =
     ([Out (Printf ''Error: File '%s' is %d bytes (%.2f KB), which exceeds the 32KB limit.\<newline>''
              [Str ''big.bin'', Num 32769, Quot 32769 1024]),
       Out (Println ''Use --force flag to transfer files larger than 32KB.''),
       Out (Println ''Note: wcp is designed for small file transfers.'')],
      Exit 1)"
    by blast
  from g res net lb rf have b: "wcpMain bigFileWorld True [''prod'', ''big.bin''] =
               (Out (Printf ''Warning: Transferring large file '%s' (%d bytes, %.2f KB) with --force flag.\<newline>''
                       [Str ''big.bin'', Num 32769, Quot 32769 1024]) #
                map Out [Printf ''Copying to endpoint '%s' (%s)...\<newline>'' [Str ''prod'', Str ''production'']] @
                [Out (Printf ''Connecting to %s...\<newline>'' [Str ''ws://prod.example:8080/ws'']),
                 Dial ''ws://prod.example:8080/ws''] @
                map Wrote
                  (map cmdLine
                     [''stty -echo'', ''stty -icanon'', ''stty -isig'', ''stty -iexten'',
                      ''stty -echoctl'', ''stty -echoke'', ''stty -echoprt'', ''stty -echoe'',
                      ''stty -echonl''] @
                   CmdMsg ''cmd''
                     (''cat <<'__EOF' |base64 --decode |gunzip > '' @ Base ''big.bin'' @ ''\<newline>'') #
                   map cmdLine (chunksOf (b64encode (gzip bigFileWorld bigFile))) @
                   [CmdMsg ''cmd'' ''__EOF\<newline>'',
                    CmdMsg ''cmd'' ''reset\<newline>'',
                    CmdMsg ''cmd'' (''echo 'it works'' @ [CHR 0x27, CHR ''\<newline>''])]) @
                [Out (Printf ''File '%s' successfully transferred\<newline>'' [Str ''big.bin'']),
                 Out (Println ''Waiting for response...'')] @
                map (\<lambda>msg. Out (Printf ''Received: %s'' [Str msg])) (responses bigFileWorld) @
                [Out (Printf ''Connection closed: %v\<newline>''
                        [Err (IOError ''websocket.ReadMessage'')])],
                Done)"
    by blast
  show ?thesis unfolding a b by (simp add: base gz b64_big big_chunks rs cmdLine_def)
qed

subsection \<open>The dial comes before raw mode\<close>

lemma NewConnection_effects:
  "e \<in> set (fst (NewConnection w url)) \<Longrightarrow>
     e = Out (Printf ''Connecting to %s...\<newline>'' [Str url]) \<or> e = Dial url"
  by (auto simp: NewConnection_def split: DialResult.splits)

lemma NewConnection_Connected:
  "NewConnection w url = (dialled, Inr c) \<Longrightarrow>
     network w url = Connected \<and> Dial url \<in> set dialled \<and> MakeRaw \<notin> set dialled"
  by (auto simp: NewConnection_def split: DialResult.splits)

lemma NewConnection_fails:
  "NewConnection w url = (dialled, Inl err) \<Longrightarrow> network w url \<noteq> Connected"
  by (auto simp: NewConnection_def split: DialResult.splits)

lemma MakeRaw_not_Out: "MakeRaw \<notin> set (map Out printed)"
  by auto

lemma MakeRaw_not_Wrote: "MakeRaw \<notin> set (map Wrote ms)"
  by auto

lemma runWSH_raw_after_dial:
  assumes "fst (runWSH w configFlag interval args) = pre @ MakeRaw # post"
  shows "\<exists>url. Dial url \<in> set pre \<and> network w url = Connected"
proof (cases args)
  case Nil
  with assms show ?thesis
    by (auto simp: runWSH_def Let_def split: sum.splits dest!: arg_cong[where f=set])
next
  case (Cons arg rest)
  obtain printed r where res:
    "resolveTarget w (if configFlag \<noteq> [] then configFlag else GetDefaultConfigPath w) arg = (printed, r)"
    by (cases "resolveTarget w (if configFlag \<noteq> [] then configFlag else GetDefaultConfigPath w) arg")
  show ?thesis
  proof (cases r)
    case (Inl code)
    with assms Cons res have "map Out printed = pre @ MakeRaw # post"
      by (simp add: runWSH_def Let_def)
    then have "MakeRaw \<in> set (map Out printed)" by simp
    then show ?thesis by auto
  next
    case (Inr targetURL)
    obtain dialled r2 where nc: "NewConnection w targetURL = (dialled, r2)"
      by (cases "NewConnection w targetURL")
    show ?thesis
    proof (cases r2)
      case (Inl err)
      with assms Cons res Inr nc
      have "map Out printed @ dialled @
              [Out (Printf ''Error: Failed to connect: %v\<newline>'' [Err err])] = pre @ MakeRaw # post"
        by (simp add: runWSH_def Let_def)
      then have "MakeRaw \<in> set (map Out printed) \<union> set dialled"
        by (auto dest!: arg_cong[where f=set])
      moreover have "MakeRaw \<notin> set dialled"
        using NewConnection_effects[of MakeRaw w targetURL] nc by auto
      ultimately show ?thesis by auto
    next
      case (Inr c)
      note conn = NewConnection_Connected[OF nc[unfolded Inr]]
      have "\<exists>tail. MakeRaw \<notin> set tail \<and>
              fst (runWSH w configFlag interval args) = (map Out printed @ dialled) @ MakeRaw # tail"
        using Cons res \<open>r = Inr targetURL\<close> nc Inr
        by (auto simp: runWSH_def Let_def)
      then obtain tail where nt: "MakeRaw \<notin> set tail"
        and eq: "pre @ MakeRaw # post = (map Out printed @ dialled) @ MakeRaw # tail"
        using assms by auto
      have nf: "MakeRaw \<notin> set (map Out printed @ dialled)" using conn by auto
      have "pre = map Out printed @ dialled"
        using append_Cons_eq_iff[OF nf nt, of pre post] eq by auto
      with conn show ?thesis by auto
    qed
  qed
qed


text \<open>
  C7. When the dial to the target URL fails (the URL does not parse, or the connection
  is refused), \<open>runWSH\<close> prints the connect error and exits with code 1; up to then it has
  printed text and, at most, dialled: it has not called \<open>term.MakeRaw\<close> and has written
  no frame. In every run of \<open>runWSH\<close>, a call of \<open>term.MakeRaw\<close> comes after a dial that
  succeeded.
\<close>

theorem dial_before_raw:
  assumes "resolveTarget w (if configFlag \<noteq> [] then configFlag else GetDefaultConfigPath w) arg =
             (printed, Inr targetURL)"
    and "NewConnection w targetURL = (dialled, Inl err)"
  shows "runWSH w configFlag interval (arg # rest) =
           (map Out printed @ dialled @
              [Out (Printf ''Error: Failed to connect: %v\<newline>'' [Err err])],
            Inl (Exit 1))
       \<and> MakeRaw \<notin> set (fst (runWSH w configFlag interval (arg # rest)))
       \<and> (\<forall>m. Wrote m \<notin> set (fst (runWSH w configFlag interval (arg # rest))))
       \<and> (\<forall>args pre post. fst (runWSH w configFlag interval args) = pre @ MakeRaw # post \<longrightarrow>
             (\<exists>url. Dial url \<in> set pre \<and> network w url = Connected))"
proof -
  have run: "runWSH w configFlag interval (arg # rest) =
           (map Out printed @ dialled @
              [Out (Printf ''Error: Failed to connect: %v\<newline>'' [Err err])],
            Inl (Exit 1))"
    using assms by (simp add: runWSH_def Let_def)
  have d: "\<And>e. e \<in> set dialled \<Longrightarrow>
      e = Out (Printf ''Connecting to %s...\<newline>'' [Str targetURL]) \<or> e = Dial targetURL"
    using NewConnection_effects[of _ w targetURL] assms(2) by simp
  have "MakeRaw \<notin> set dialled" "\<And>m. Wrote m \<notin> set dialled"
    using d by blast+
  then show ?thesis using run runWSH_raw_after_dial by auto
qed

theorem dial_before_raw_witness:
  "runWSH unreachableWorld [] 15 [''prod''] =
     ([Out (Printf ''Connecting to endpoint '%s' (%s)...\<newline>'' [Str ''prod'', Str ''production'']),
       Out (Printf ''Connecting to %s...\<newline>'' [Str ''ws://prod.example:8080/ws'']),
       Dial ''ws://prod.example:8080/ws'',
       Out (Printf ''Error: Failed to connect: %v\<newline>''
              [Err (Errorf ''dial error: %v'' [Err (IOError ''websocket.Dial'')])])],
      Inl (Exit 1))
   \<and> MakeRaw \<notin> set (fst (runWSH unreachableWorld [] 15 [''prod'']))"
proof -
  have res: "resolveTarget unreachableWorld
               (if ([] :: string) \<noteq> [] then [] else GetDefaultConfigPath unreachableWorld) ''prod'' =
             ([Printf ''Connecting to endpoint '%s' (%s)...\<newline>'' [Str ''prod'', Str ''production'']],
              Inr ''ws://prod.example:8080/ws'')"
    using IsURL_never[of "''prod''"]
    by (simp add: resolveTarget_def viaEndpoint_def LoadConfig_def FindEndpoint_def
          unreachableWorld_def exampleWorld_def)
  have nc: "NewConnection unreachableWorld ''ws://prod.example:8080/ws'' =
      ([Out (Printf ''Connecting to %s...\<newline>'' [Str ''ws://prod.example:8080/ws'']),
        Dial ''ws://prod.example:8080/ws''],
       Inl (Errorf ''dial error: %v'' [Err (IOError ''websocket.Dial'')]))"
    by (simp add: NewConnection_def unreachableWorld_def exampleWorld_def)
  show ?thesis using dial_before_raw[OF res nc, of 15 "[]"] by simp
qed

subsection \<open>The input pump\<close>

lemma exampleSession_eq:
  "exampleSession =
     \<lparr>conn = \<lparr>frames = [ResizeMsg ''resize'' 24 80,
                          CmdMsg ''cmd'' ''export TERM=xterm-256color\<newline>''],
              isClosed = False, budget = None\<rparr>,
      tty = RawMode, lastSendTime = 0, lastCols = 0, lastRows = 0, heartbeatInterval = 15,
      screen = [], phase = Active, exitCode = None\<rparr>"
  by (simp add: exampleSession_def enterSession_def ResizeTerm_def SendJSON_def WriteMessage_def
        exampleWorld_def freshConnection_def Let_def)

lemma runWSH_example:
  "snd (runWSH exampleWorld [] 15 [''prod'']) = Inr exampleSession"
  using IsURL_never[of "''prod''"]
  by (simp add: runWSH_def resolveTarget_def viaEndpoint_def LoadConfig_def FindEndpoint_def
        NewConnection_def exampleSession_def freshConnection_def exampleWorld_def Let_def)

lemma length_quitSequence: "length quitSequence = 5"
  by (simp add: quitSequence_def)

text \<open>
  C8. While the main goroutine is in the input loop: a read that returns exactly the five
  bytes of the force-quit sequence closes the connection and leaves the loop (the session
  goes from \<open>Active\<close> to \<open>Closing\<close>, and no later read is handled) without writing a frame;
  every other read of at least one byte, on a connection that accepts the write, puts
  exactly one \<open>Cmd\<close> message with those bytes on the wire, leaves the session \<open>Active\<close> and
  refreshes the clock. The loop of the older client does the same with its own sequence.
\<close>

theorem input_pump_step:
  assumes "phase s = Active"
  shows "step s (StdinRead quitSequence now) = s\<lparr>conn := Close (conn s), phase := Closing\<rparr>
       \<and> frames (conn (step s (StdinRead quitSequence now))) = frames (conn s)
       \<and> isClosed (conn (step s (StdinRead quitSequence now)))
       \<and> phase (step s (StdinRead quitSequence now)) = Closing
       \<and> (\<forall>bytes t. step (step s (StdinRead quitSequence now)) (StdinRead bytes t) =
                      step s (StdinRead quitSequence now))
       \<and> length quitSequence = 5
       \<and> (\<forall>bytes. bytes \<noteq> quitSequence \<and> bytes \<noteq> [] \<and> healthy (conn s) \<longrightarrow>
             frames (conn (step s (StdinRead bytes now))) = frames (conn s) @ [CmdMsg ''cmd'' bytes]
             \<and> phase (step s (StdinRead bytes now)) = Active
             \<and> lastSendTime (step s (StdinRead bytes now)) = now)
       \<and> inputPass c quitSequenceF5 = (Close c, False)
       \<and> frames (Close c) = frames c
       \<and> length quitSequenceF5 = 5
       \<and> (\<forall>bytes. bytes \<noteq> quitSequenceF5 \<and> bytes \<noteq> [] \<and> healthy c \<longrightarrow>
             inputPass c bytes = (pushed c [CmdMsg ''cmd'' bytes], True))"
  using assms
  by (simp add: step_def Close_def length_quitSequence SendJSON_healthy pushed_def
        inputPass_def sendJSON_def SendJSON_def[symmetric] quitSequenceF5_def)

theorem input_pump_step_witness:
  "frames (conn (step exampleSession (StdinRead ''ls\<newline>'' 5))) =
     [ResizeMsg ''resize'' 24 80, CmdMsg ''cmd'' ''export TERM=xterm-256color\<newline>'',
      CmdMsg ''cmd'' ''ls\<newline>'']
   \<and> phase (step exampleSession (StdinRead ''ls\<newline>'' 5)) = Active
   \<and> frames (conn (step exampleSession (StdinRead quitSequence 5))) =
     [ResizeMsg ''resize'' 24 80, CmdMsg ''cmd'' ''export TERM=xterm-256color\<newline>'']
   \<and> phase (step exampleSession (StdinRead quitSequence 5)) = Closing"
proof -
  have a: "phase exampleSession = Active" by (simp add: exampleSession_eq)
  have h: "healthy (conn exampleSession)" by (simp add: exampleSession_eq healthy_def)
  have n: "''ls\<newline>'' \<noteq> quitSequence"
    using length_quitSequence by (auto dest: arg_cong[where f=length])
  have f: "frames (conn exampleSession) =
     [ResizeMsg ''resize'' 24 80, CmdMsg ''cmd'' ''export TERM=xterm-256color\<newline>'']"
    by (simp add: exampleSession_eq)
  note t = input_pump_step[OF a, of 5]
  from t have q: "frames (conn (step exampleSession (StdinRead quitSequence 5))) =
        frames (conn exampleSession)"
    and p: "phase (step exampleSession (StdinRead quitSequence 5)) = Closing"
    by blast+
  from t h n have l: "frames (conn (step exampleSession (StdinRead ''ls\<newline>'' 5))) =
        frames (conn exampleSession) @ [CmdMsg ''cmd'' ''ls\<newline>'']"
    and pl: "phase (step exampleSession (StdinRead ''ls\<newline>'' 5)) = Active"
    by blast+
  show ?thesis by (simp add: q p l pl f)
qed

subsection \<open>Restoring the terminal\<close>

lemma step_ReceiveError:
  "phase s \<noteq> Closed \<Longrightarrow> step s ReceiveError = s\<lparr>phase := Closed, exitCode := Some 0\<rparr>"
  by (simp add: step_def)

lemma step_Return:
  "phase s = Closing \<Longrightarrow>
   step s Return = s\<lparr>tty := Original, screen := screen s @ resetTerminal, conn := Close (conn s),
                     phase := Closed, exitCode := Some 0\<rparr>"
  by (simp add: step_def)

lemma restored_on_return:
  assumes "phase s = Active"
  shows "tty (run s [StdinError, Return]) = Original"
    and "tty (run s [StdinRead quitSequence now, Return]) = Original"
  using assms by (simp_all add: step_def)

text \<open>
  C4. The terminal is restored when \<open>runWSH\<close> returns, that is after an input error and
  after the force-quit sequence, since the restore is a deferred call. When the output
  pump finds the connection closed it calls \<open>os.Exit(0)\<close>, which ends the process at once
  and runs no deferred call: the terminal stays in raw mode. The same happens when the
  output pump gets its error between the force-quit sequence and the return.
\<close>

theorem remote_close_skips_restore:
  "phase exampleSession = Active
   \<and> tty exampleSession = RawMode
   \<and> phase (step exampleSession ReceiveError) = Closed
   \<and> exitCode (step exampleSession ReceiveError) = Some 0
   \<and> tty (step exampleSession ReceiveError) = RawMode
   \<and> tty (run exampleSession [StdinError, Return]) = Original
   \<and> tty (run exampleSession [StdinRead quitSequence 1, Return]) = Original
   \<and> tty (run exampleSession [StdinRead quitSequence 1, ReceiveError, Return]) = RawMode"
  by (simp add: exampleSession_eq step_def)

subsection \<open>The idle heartbeat\<close>

lemma int64_id: "- (2 ^ 63) \<le> x \<Longrightarrow> x < 2 ^ 63 \<Longrightarrow> int64 x = x"
  by (simp add: int64_def)

lemma heartbeatDuration_in_range:
  "- (2 ^ 63) \<le> interval * 1000000000 \<Longrightarrow> interval * 1000000000 < 2 ^ 63 \<Longrightarrow>
   heartbeatDuration interval = interval * 1000000000"
  by (simp add: heartbeatDuration_def int64_id)

lemma heartbeatDuration_wraps: "heartbeatDuration 9223372037 = - 9223372036709551616"
  by (simp add: heartbeatDuration_def int64_def)

text \<open>
  C5, as stated, fails when a send has failed: the clock is refreshed after every send,
  also after one whose write returned an error. In the example session the last frame
  went out at time 0; the link goes down, a key is read at 10 s (its send fails, the
  clock moves to 10 s), and at the tick at 16 s, more than the 15 s of the interval after
  the last successful send, no heartbeat is sent and the clock is not refreshed.
\<close>

theorem heartbeat_after_failed_send:
  "heartbeatInterval exampleSession = 15
   \<and> lastSendTime exampleSession = 0
   \<and> lastSuccessfulSend 0 exampleSession [LinkDown, StdinRead ''a'' 10000000000] = 0
   \<and> frames (conn (run exampleSession [LinkDown, StdinRead ''a'' 10000000000])) =
       frames (conn exampleSession)
   \<and> lastSendTime (run exampleSession [LinkDown, StdinRead ''a'' 10000000000]) = 10000000000
   \<and> specHeartbeatDue 0 exampleSession [LinkDown, StdinRead ''a'' 10000000000] 16000000000
   \<and> step (run exampleSession [LinkDown, StdinRead ''a'' 10000000000])
          (HeartbeatTick 16000000000 16000000001) =
       run exampleSession [LinkDown, StdinRead ''a'' 10000000000]"
proof -
  have q: "''a'' \<noteq> quitSequence"
    by (auto simp: quitSequence_def dest: arg_cong[where f=length])
  have d: "heartbeatDuration 15 = 15000000000"
    by (simp add: heartbeatDuration_def int64_def)
  show ?thesis
    by (simp add: exampleSession_eq step_def q d specHeartbeatDue_def SendJSON_def WriteMessage_def)
qed


lemma tick_step:
  assumes "phase s \<noteq> Closed"
    and "- (2 ^ 63) \<le> heartbeatInterval s * 1000000000"
    and "heartbeatInterval s * 1000000000 < 2 ^ 63"
  shows "step s (HeartbeatTick now refresh) =
           (if now - lastSendTime s > heartbeatInterval s * 1000000000
            then s\<lparr>conn := snd (SendJSON (conn s) (HeartbeatMsg ''heartbeat'' [])),
                   lastSendTime := refresh\<rparr>
            else s)"
  using assms by (simp add: step_def heartbeatDuration_in_range)

lemma tick_step_healthy:
  assumes "phase s \<noteq> Closed"
    and "- (2 ^ 63) \<le> heartbeatInterval s * 1000000000"
    and "heartbeatInterval s * 1000000000 < 2 ^ 63"
    and "healthy (conn s)"
  shows "step s (HeartbeatTick now refresh) =
           (if now - lastSendTime s > heartbeatInterval s * 1000000000
            then s\<lparr>conn := pushed (conn s) [HeartbeatMsg ''heartbeat'' []],
                   lastSendTime := refresh\<rparr>
            else s)"
  using tick_step[OF assms(1-3)] assms(4) by (simp add: SendJSON_healthy)

lemma two_ticks:
  assumes "phase s \<noteq> Closed"
    and "- (2 ^ 63) \<le> heartbeatInterval s * 1000000000"
    and "heartbeatInterval s * 1000000000 < 2 ^ 63"
    and "healthy (conn s)"
    and "now - lastSendTime s > heartbeatInterval s * 1000000000"
  shows "frames (conn (run s [HeartbeatTick now refresh, HeartbeatTick now' refresh'])) =
           frames (conn s) @
             (if now' - refresh > heartbeatInterval s * 1000000000
              then [HeartbeatMsg ''heartbeat'' [], HeartbeatMsg ''heartbeat'' []]
              else [HeartbeatMsg ''heartbeat'' []])"
proof -
  let ?s1 = "s\<lparr>conn := pushed (conn s) [HeartbeatMsg ''heartbeat'' []], lastSendTime := refresh\<rparr>"
  have 1: "step s (HeartbeatTick now refresh) = ?s1"
    using tick_step_healthy[OF assms(1-4)] assms(5) by simp
  have 2: "step ?s1 (HeartbeatTick now' refresh') =
           (if now' - lastSendTime ?s1 > heartbeatInterval ?s1 * 1000000000
            then ?s1\<lparr>conn := pushed (conn ?s1) [HeartbeatMsg ''heartbeat'' []],
                     lastSendTime := refresh'\<rparr>
            else ?s1)"
    by (rule tick_step_healthy) (use assms in simp_all)
  have r: "run s [HeartbeatTick now refresh, HeartbeatTick now' refresh'] =
           step ?s1 (HeartbeatTick now' refresh')"
    by (simp add: 1)
  show ?thesis unfolding r 2 by (simp add: pushed_def)
qed

text \<open>
  C5, amended. For a heartbeat interval whose length in nanoseconds fits in 64 bits: at a
  tick of the heartbeat a \<open>Heartbeat\<close> message is sent if and only if the time since the
  liveness clock was last refreshed exceeds the interval, and then the clock is refreshed.
  The clock is refreshed after every send of any kind (keys, signals, resizes,
  heartbeats), whether or not the write succeeded; on a connection that accepts the
  writes it is the time of the last successful send. So a tick within the interval after
  any send sends nothing; and on an idle connection, after a heartbeat, the next tick
  sends one more heartbeat exactly when the interval has elapsed again.
\<close>

theorem heartbeat_tick:
  assumes "phase s \<noteq> Closed"
    and "- (2 ^ 63) \<le> heartbeatInterval s * 1000000000"
    and "heartbeatInterval s * 1000000000 < 2 ^ 63"
  shows "step s (HeartbeatTick now refresh) =
           (if now - lastSendTime s > heartbeatInterval s * 1000000000
            then s\<lparr>conn := snd (SendJSON (conn s) (HeartbeatMsg ''heartbeat'' [])),
                   lastSendTime := refresh\<rparr>
            else s)
       \<and> (healthy (conn s) \<longrightarrow>
            frames (conn (step s (HeartbeatTick now refresh))) =
              (if now - lastSendTime s > heartbeatInterval s * 1000000000
               then frames (conn s) @ [HeartbeatMsg ''heartbeat'' []]
               else frames (conn s)))
       \<and> (\<forall>sig dims t. lastSendTime (step s (Signalled sig dims t)) = t)
       \<and> (\<forall>bytes t. phase s = Active \<and> bytes \<noteq> quitSequence \<longrightarrow>
             lastSendTime (step s (StdinRead bytes t)) = t)
       \<and> (\<forall>cols rows t. cols \<noteq> lastCols s \<or> rows \<noteq> lastRows s \<longrightarrow>
             lastSendTime (step s (ResizeTick (Some (cols, rows)) t)) = t)
       \<and> (\<forall>now' refresh'.
             healthy (conn s) \<and> now - lastSendTime s > heartbeatInterval s * 1000000000 \<longrightarrow>
             frames (conn (run s [HeartbeatTick now refresh, HeartbeatTick now' refresh'])) =
               frames (conn s) @
                 (if now' - refresh > heartbeatInterval s * 1000000000
                  then [HeartbeatMsg ''heartbeat'' [], HeartbeatMsg ''heartbeat'' []]
                  else [HeartbeatMsg ''heartbeat'' []]))"
proof -
  have sig: "lastSendTime (step s (Signalled sg dims t)) = t" for sg dims t
    using assms(1) by (cases sg) (simp_all add: step_def)
  have rd: "phase s = Active \<Longrightarrow> bytes \<noteq> quitSequence \<Longrightarrow>
            lastSendTime (step s (StdinRead bytes t)) = t" for bytes t
    by (simp add: step_def)
  have rs: "cols \<noteq> lastCols s \<or> rows \<noteq> lastRows s \<Longrightarrow>
            lastSendTime (step s (ResizeTick (Some (cols, rows)) t)) = t" for cols rows t
    using assms(1) by (auto simp: step_def)
  have fr: "healthy (conn s) \<Longrightarrow>
            frames (conn (step s (HeartbeatTick now refresh))) =
              (if now - lastSendTime s > heartbeatInterval s * 1000000000
               then frames (conn s) @ [HeartbeatMsg ''heartbeat'' []]
               else frames (conn s))"
    using tick_step_healthy[OF assms] by (simp add: pushed_def)
  show ?thesis
    using tick_step[OF assms] fr sig rd rs two_ticks[OF assms] by blast
qed

theorem heartbeat_tick_witness:
  "frames (conn (step exampleSession (HeartbeatTick 15000000000 15000000001))) =
     [ResizeMsg ''resize'' 24 80, CmdMsg ''cmd'' ''export TERM=xterm-256color\<newline>'']
   \<and> frames (conn (step exampleSession (HeartbeatTick 16000000000 16000000001))) =
     [ResizeMsg ''resize'' 24 80, CmdMsg ''cmd'' ''export TERM=xterm-256color\<newline>'',
      HeartbeatMsg ''heartbeat'' []]
   \<and> lastSendTime (step exampleSession (StdinRead ''a'' 7000000000)) = 7000000000"
proof -
  have a: "phase exampleSession \<noteq> Closed" by (simp add: exampleSession_eq)
  have lo: "- (2 ^ 63) \<le> heartbeatInterval exampleSession * 1000000000"
    and hi: "heartbeatInterval exampleSession * 1000000000 < 2 ^ 63"
    by (simp_all add: exampleSession_eq)
  have h: "healthy (conn exampleSession)" by (simp add: exampleSession_eq healthy_def)
  have q: "''a'' \<noteq> quitSequence"
    by (auto simp: quitSequence_def dest: arg_cong[where f=length])
  have act: "phase exampleSession = Active" by (simp add: exampleSession_eq)
  have vals: "lastSendTime exampleSession = 0" "heartbeatInterval exampleSession = 15"
    "frames (conn exampleSession) =
       [ResizeMsg ''resize'' 24 80, CmdMsg ''cmd'' ''export TERM=xterm-256color\<newline>'']"
    by (simp_all add: exampleSession_eq)
  note t1 = heartbeat_tick[OF a lo hi, of 15000000000 15000000001]
  note t2 = heartbeat_tick[OF a lo hi, of 16000000000 16000000001]
  from t1 h have 1: "frames (conn (step exampleSession (HeartbeatTick 15000000000 15000000001))) =
      (if 15000000000 - lastSendTime exampleSession > heartbeatInterval exampleSession * 1000000000
       then frames (conn exampleSession) @ [HeartbeatMsg ''heartbeat'' []]
       else frames (conn exampleSession))"
    by blast
  from t2 h have 2: "frames (conn (step exampleSession (HeartbeatTick 16000000000 16000000001))) =
      (if 16000000000 - lastSendTime exampleSession > heartbeatInterval exampleSession * 1000000000
       then frames (conn exampleSession) @ [HeartbeatMsg ''heartbeat'' []]
       else frames (conn exampleSession))"
    by blast
  from t1 act q have 3: "lastSendTime (step exampleSession (StdinRead ''a'' 7000000000)) = 7000000000"
    by blast
  show ?thesis unfolding 1 2 3 by (simp add: vals)
qed

end
